theory Spec2Isabelle
  imports Complex_Main
begin

section \<open>Errors and results\<close>

text \<open>
  Every Go function modelled here that returns an \<open>error\<close> returns a value of type
  \<open>error + 'a\<close> (\<open>Inl\<close> the error). A Go panic (nil pointer dereference, an explicit
  \<open>panic(err)\<close>) is the error \<open>Panic\<close>; it is never swallowed by the code's
  \<open>if err != nil\<close> branches, because a panic does not come back as an \<open>err\<close> value.
\<close>

datatype error =
    OSError string string
  | NoTaskfileFound string
  | AbsError string error
  | ParseError string error
  | ErrIncludedTaskfilesCantHaveDotenvs
  | NodeNil
  | ParentNil
  | CycleError string string
  | CollabError string
  | Panic string

fun isPanic :: "error \<Rightarrow> bool" where
  "isPanic (Panic m) = True"
| "isPanic e = False"

text \<open>
  The value of \<open>t.ParsedVersion()\<close> is a Go \<open>float64\<close>. The code only compares it
  with \<open>3.0\<close>, so the model keeps the finite values as rationals and the three special
  values apart: both comparisons are false on a NaN.
\<close>

datatype float64 = Finite rat | PosInf | NegInf | NaN

fun ge3 :: "float64 \<Rightarrow> bool" where
  "ge3 (Finite r) = (3 \<le> r)"
| "ge3 PosInf = True"
| "ge3 NegInf = False"
| "ge3 NaN = False"

fun lt3 :: "float64 \<Rightarrow> bool" where
  "lt3 (Finite r) = (r < 3)"
| "lt3 PosInf = False"
| "lt3 NegInf = True"
| "lt3 NaN = False"

section \<open>Data model\<close>

text \<open>
  The struct declarations of package \<open>taskfile\<close> are not among the sources. The records
  below hold the fields that \<open>read.Taskfile\<close>, \<open>readTaskfile\<close>, \<open>readPackageJson\<close>
  and \<open>ListTasks\<close> read or write. A Go pointer that may be nil is an \<open>option\<close>;
  a Go map is an association list with distinct keys, looked up with \<open>map_of\<close>.
  Field names carry a prefix because record fields are global constants.
\<close>

record Var =
  v_Static :: string
  v_Dir :: string

record Vars =
  Mapping :: "(string \<times> Var) list"

record IncludedTaskfile =
  inc_Taskfile :: string
  inc_Dir :: string
  inc_Optional :: bool
  inc_Internal :: bool
  inc_Aliases :: "string list"
  inc_AdvancedImport :: bool
  inc_Vars :: "Vars option"
  inc_BaseDir :: string

record Cmd =
  c_Cmd :: string

record Task =
  t_Task :: string
  t_Dir :: string
  t_Taskfile :: string
  t_Desc :: string
  t_Cmds :: "Cmd list"
  t_Aliases :: "string list"
  t_Internal :: bool
  t_IncludeVars :: "Vars option"
  t_IncludedTaskfileVars :: "Vars option"
  t_IncludedTaskfile :: "IncludedTaskfile option"

text \<open>The zero value \<open>&taskfile.Task{}\<close>.\<close>

definition emptyTask :: Task where
  "emptyTask = \<lparr>t_Task = [], t_Dir = [], t_Taskfile = [], t_Desc = [], t_Cmds = [],
     t_Aliases = [], t_Internal = False, t_IncludeVars = None,
     t_IncludedTaskfileVars = None, t_IncludedTaskfile = None\<rparr>"

text \<open>
  \<open>tf_Tasks\<close> is \<open>map[string]*Task\<close>: an entry \<open>(k, None)\<close> is a key stored with a nil
  pointer. Two keys never share one task object in this model.
\<close>

record taskfile_Taskfile =
  tf_Version :: string
  tf_Tasks :: "(string \<times> Task option) list"
  tf_Includes :: "(string \<times> IncludedTaskfile) list"
  tf_Vars :: "Vars option"
  tf_Env :: "Vars option"
  tf_Dotenv :: "string list"

record packageJson =
  Scripts :: "(string \<times> string) list"

datatype ReaderNode =
  ReaderNode (rn_Dir: string) (rn_Entrypoint: string) (rn_Optional: bool)
    (rn_Parent: "ReaderNode option")

text \<open>\<open>t.Tasks[name]\<close>: nil when the key is absent or stored with a nil pointer.\<close>

definition lookupTask :: "(string \<times> Task option) list \<Rightarrow> string \<Rightarrow> Task option" where
  "lookupTask tasks name = (case map_of tasks name of None \<Rightarrow> None | Some v \<Rightarrow> v)"

section \<open>The environment: operating system and collaborators\<close>

text \<open>
  The code reads the file system and calls functions of this repository and of third
  party libraries whose sources are not given. They are the fields of one record,
  and every theorem holds for every such record.

  Operating system and standard library:
  \<^item> \<open>Getwd\<close> is \<open>os.Getwd()\<close>;
  \<^item> \<open>Stat p\<close> is \<open>os.Stat(p)\<close>, with \<open>Inr b\<close> where \<open>b\<close> is \<open>fi.Mode().IsRegular()\<close>;
  \<^item> \<open>Open p\<close> is \<open>os.Open(p)\<close> and returns a file handle;
  \<^item> \<open>ReadAll f\<close> is \<open>ioutil.ReadAll(f)\<close>;
  \<^item> \<open>GOOS\<close> is \<open>runtime.GOOS\<close>;
  \<^item> \<open>Rel\<close> is \<open>filepath.Rel\<close>.

  Decoders:
  \<^item> \<open>yamlDecode f\<close> is \<open>yaml.NewDecoder(f).Decode(&t)\<close>;
  \<^item> \<open>jsonUnmarshal fd\<close> is \<open>json.Unmarshal(fd, &p)\<close>.

  Functions of this repository that are not among the sources:
  \<^item> \<open>SmartJoin\<close> and \<open>TryAbsToRel\<close> of package \<open>filepathext\<close>;
  \<^item> \<open>searchForFile\<close> of package \<open>read\<close>, returning the path and the \<open>found\<close> flag;
  \<^item> \<open>ParsedVersion\<close>, \<open>FullTaskfilePath\<close>, \<open>FullDirPath\<close> and \<open>Merge\<close> of
    package \<open>taskfile\<close>;
  \<^item> \<open>Replace s\<close> is \<open>tr.Replace(s)\<close> of a fresh \<open>templater.Templater\<close> with no
    variables and \<open>RemoveNoValue\<close> set, with \<open>Inl\<close> the error that \<open>tr.Err()\<close>
    reports afterwards.
\<close>

type_synonym File = string

record env =
  Getwd :: "error + string"
  Stat :: "string \<Rightarrow> error + bool"
  Open :: "string \<Rightarrow> error + File"
  ReadAll :: "File \<Rightarrow> error + string"
  GOOS :: string
  Rel :: "string \<Rightarrow> string \<Rightarrow> error + string"
  yamlDecode :: "File \<Rightarrow> error + taskfile_Taskfile"
  jsonUnmarshal :: "string \<Rightarrow> error + packageJson"
  SmartJoin :: "string \<Rightarrow> string \<Rightarrow> string"
  TryAbsToRel :: "string \<Rightarrow> string"
  searchForFile :: "string \<Rightarrow> string \<Rightarrow> error + (string \<times> bool)"
  ParsedVersion :: "taskfile_Taskfile \<Rightarrow> error + float64"
  Replace :: "string \<Rightarrow> error + string"
  FullTaskfilePath :: "IncludedTaskfile \<Rightarrow> error + string"
  FullDirPath :: "IncludedTaskfile \<Rightarrow> error + string"
  Merge :: "taskfile_Taskfile \<Rightarrow> taskfile_Taskfile \<Rightarrow> IncludedTaskfile option \<Rightarrow> string list
              \<Rightarrow> error + taskfile_Taskfile"

section \<open>Strings and paths of the Go standard library (Unix)\<close>

definition HasSuffix :: "string \<Rightarrow> string \<Rightarrow> bool" where
  "HasSuffix s suffix =
     (length suffix \<le> length s \<and> drop (length s - length suffix) s = suffix)"

definition HasPrefix :: "string \<Rightarrow> string \<Rightarrow> bool" where
  "HasPrefix s pre = (take (length pre) s = pre)"

fun Contains :: "string \<Rightarrow> string \<Rightarrow> bool" where
  "Contains [] substr = (substr = [])"
| "Contains (c # cs) substr = (HasPrefix (c # cs) substr \<or> Contains cs substr)"

fun splitOn :: "char \<Rightarrow> string \<Rightarrow> string list" where
  "splitOn sep [] = [[]]"
| "splitOn sep (c # cs) =
     (if c = sep then [] # splitOn sep cs
      else (case splitOn sep cs of [] \<Rightarrow> [[c]] | x # xs \<Rightarrow> (c # x) # xs))"

fun joinWith :: "string \<Rightarrow> string list \<Rightarrow> string" where
  "joinWith sep [] = []"
| "joinWith sep [x] = x"
| "joinWith sep (x # y # ys) = x @ sep @ joinWith sep (y # ys)"

text \<open>
  \<open>filepath.Clean\<close>, element by element. \<open>out\<close> is the output built so far, last
  element first. A \<open>..\<close> removes the last real element; where there is none it is kept
  on a relative path and dropped on a rooted one.
\<close>

fun cleanElem :: "bool \<Rightarrow> string list \<Rightarrow> string \<Rightarrow> string list" where
  "cleanElem rooted out el =
     (if el = [] \<or> el = ''.'' then out
      else if el = ''..'' then
        (case out of
           [] \<Rightarrow> (if rooted then [] else [''..''])
         | x # xs \<Rightarrow> (if x = ''..'' then ''..'' # out else xs))
      else el # out)"

definition Clean :: "string \<Rightarrow> string" where
  "Clean path =
     (if path = [] then ''.''
      else
        let rooted = (hd path = CHR ''/'');
            out = joinWith ''/'' (rev (foldl (cleanElem rooted) [] (splitOn CHR ''/'' path)))
        in if rooted then CHR ''/'' # out else if out = [] then ''.'' else out)"

definition Join :: "string list \<Rightarrow> string" where
  "Join elem =
     (case dropWhile (\<lambda>e. e = []) elem of
        [] \<Rightarrow> []
      | e # es \<Rightarrow> Clean (joinWith ''/'' (e # es)))"

definition Dir :: "string \<Rightarrow> string" where
  "Dir path = Clean (rev (dropWhile (\<lambda>c. c \<noteq> CHR ''/'') (rev path)))"

definition Base :: "string \<Rightarrow> string" where
  "Base path =
     (if path = [] then ''.''
      else
        let p = rev (dropWhile (\<lambda>c. c = CHR ''/'') (rev path));
            b = rev (takeWhile (\<lambda>c. c \<noteq> CHR ''/'') (rev p))
        in if b = [] then ''/'' else b)"

definition IsAbs :: "string \<Rightarrow> bool" where
  "IsAbs path = HasPrefix path ''/''"

text \<open>\<open>filepath.Abs\<close>: it fails only when the working directory cannot be read.\<close>

definition Abs :: "env \<Rightarrow> string \<Rightarrow> error + string" where
  "Abs w path =
     (if IsAbs path then Inr (Clean path)
      else (case Getwd w of Inl e \<Rightarrow> Inl e | Inr wd \<Rightarrow> Inr (Join [wd, path])))"

text \<open>\<open>fmt.Sprintf("%d", n)\<close> for a line number.\<close>

definition digitChar :: "nat \<Rightarrow> char" where
  "digitChar n = ''0123456789'' ! n"

function showNat :: "nat \<Rightarrow> string" where
  "showNat n = (if n < 10 then [digitChar n] else showNat (n div 10) @ [digitChar (n mod 10)])"
  by pat_completeness auto
termination
  by (relation "measure id") auto

declare showNat.simps [simp del]

section \<open>The cycle guard and the location resolver\<close>

text \<open>
  \<open>checkCircularIncludes\<close>, lines 355 to 375. The loop climbs from the node's parent to
  the root and compares the joined path of every ancestor with the node's own.
  \<open>None\<close> is the nil error.
\<close>

fun climb :: "env \<Rightarrow> string \<Rightarrow> string \<Rightarrow> ReaderNode option \<Rightarrow> error option" where
  "climb w basePath parentPath None = None"
| "climb w basePath parentPath (Some (ReaderNode d e opt parent)) =
     (let curPath = SmartJoin w d e
      in if curPath = basePath then Some (CycleError curPath parentPath)
         else climb w basePath parentPath parent)"

definition checkCircularIncludes :: "env \<Rightarrow> ReaderNode option \<Rightarrow> error option" where
  "checkCircularIncludes w node =
     (case node of
        None \<Rightarrow> Some NodeNil
      | Some n \<Rightarrow>
          (case rn_Parent n of
             None \<Rightarrow> Some ParentNil
           | Some p \<Rightarrow>
               climb w (SmartJoin w (rn_Dir n) (rn_Entrypoint n))
                 (SmartJoin w (rn_Dir p) (rn_Entrypoint p)) (Some p)))"

definition defaultTaskfiles :: "string list" where
  "defaultTaskfiles =
     [''Taskfile.yml'', ''Taskfile.yaml'', ''Taskfile.dist.yml'', ''Taskfile.dist.yaml'',
      ''package.json'']"

definition statOK :: "env \<Rightarrow> string \<Rightarrow> bool" where
  "statOK w p = (case Stat w p of Inl e \<Rightarrow> False | Inr fi \<Rightarrow> True)"

text \<open>\<open>exists\<close>, lines 336 to 353.\<close>

definition exists :: "env \<Rightarrow> string \<Rightarrow> error + string" where
  "exists w path =
     (case Stat w path of
        Inl e \<Rightarrow> Inl e
      | Inr regular \<Rightarrow>
          if regular then Inr path
          else (case find (\<lambda>n. statOK w (SmartJoin w path n)) defaultTaskfiles of
                  Some n \<Rightarrow> Inr (SmartJoin w path n)
                | None \<Rightarrow> Inl (NoTaskfileFound path)))"

section \<open>The loaders\<close>

text \<open>
  Both loaders return, beside their result, the file handles that are open when they
  return: \<open>os.Open\<close> adds its handle, and neither function has a \<open>Close\<close> or a
  \<open>defer\<close> that would remove one.

  \<open>readTaskfile\<close>, lines 241 to 254. The loop that stamps \<open>task.Taskfile\<close> writes
  through every pointer of the map, so a nil entry is a nil pointer dereference.
\<close>

definition hasNilTask :: "(string \<times> Task option) list \<Rightarrow> bool" where
  "hasNilTask tasks = (None \<in> set (map snd tasks))"

definition eachTask :: "(Task \<Rightarrow> Task) \<Rightarrow> (string \<times> Task option) list
    \<Rightarrow> (string \<times> Task option) list" where
  "eachTask f tasks = map (\<lambda>(k, v). (k, map_option f v)) tasks"

definition nilDeref :: error where
  "nilDeref = Panic ''invalid memory address or nil pointer dereference''"

definition readTaskfile :: "env \<Rightarrow> string \<Rightarrow> File list \<times> (error + taskfile_Taskfile)" where
  "readTaskfile w file =
     (case Open w file of
        Inl e \<Rightarrow> ([], Inl e)
      | Inr f \<Rightarrow>
          (case yamlDecode w f of
             Inl e \<Rightarrow> ([f], Inl (ParseError (TryAbsToRel w file) e))
           | Inr t \<Rightarrow>
               if hasNilTask (tf_Tasks t) then ([f], Inl nilDeref)
               else ([f], Inr (t\<lparr>tf_Tasks :=
                       eachTask (\<lambda>task. task\<lparr>t_Taskfile := file\<rparr>) (tf_Tasks t)\<rparr>))))"

text \<open>
  \<open>findLineNumber\<close>, lines 315 to 334. A \<open>bufio.Scanner\<close> with the default split
  function yields the text between line feeds, without one trailing carriage return,
  and no empty last line; it stops with \<open>ErrTooLong\<close> at a line that does not fit its
  buffer of \<open>MaxScanTokenSize\<close> bytes, and the function then panics.
\<close>

definition MaxScanTokenSize :: nat where
  "MaxScanTokenSize = 65536"

definition dropCR :: "string \<Rightarrow> string" where
  "dropCR l = (if l \<noteq> [] \<and> last l = CHR 0x0D then butlast l else l)"

definition scanLines :: "string \<Rightarrow> string list" where
  "scanLines f =
     (let segs = splitOn CHR 0x0A f in if last segs = [] then butlast segs else segs)"

fun scanFor :: "string \<Rightarrow> nat \<Rightarrow> string list \<Rightarrow> error + string" where
  "scanFor needle line [] = Inr []"
| "scanFor needle line (l # ls) =
     (if MaxScanTokenSize \<le> length l then Inl (Panic ''bufio.Scanner: token too long'')
      else if Contains (dropCR l) needle then Inr (CHR '':'' # showNat line)
      else scanFor needle (Suc line) ls)"

definition findLineNumber :: "string \<Rightarrow> string \<Rightarrow> error + string" where
  "findLineNumber f scriptName =
     scanFor (CHR 0x22 # scriptName @ [CHR 0x22, CHR '':'']) 1 (scanLines f)"

text \<open>
  \<open>readPackageJson\<close>, lines 260 to 313. The description starts with the eight bytes
  that the source file has before the first \<open>%s\<close>, and a blank.
\<close>

definition descPrefix :: string where
  "descPrefix =
     [CHR 0xC3, CHR 0xA2, CHR 0xE2, CHR 0x80, CHR 0xA0, CHR 0xE2, CHR 0x80, CHR 0x99, CHR '' '']"

definition scriptTask :: "string \<Rightarrow> string \<Rightarrow> string \<Rightarrow> string \<Rightarrow> string \<Rightarrow> Task" where
  "scriptTask file relFile cmd lineNo name =
     emptyTask\<lparr>t_Taskfile := file,
       t_Desc := descPrefix @ relFile @ lineNo,
       t_Cmds := [\<lparr>c_Cmd = cmd @ '' install --silent --frozen-lockfile''\<rparr>,
                  \<lparr>c_Cmd = cmd @ '' run '' @ name\<rparr>]\<rparr>"

fun scriptTasks :: "string \<Rightarrow> string \<Rightarrow> string \<Rightarrow> string \<Rightarrow> string list
    \<Rightarrow> error + (string \<times> Task option) list" where
  "scriptTasks file relFile cmd fd [] = Inr []"
| "scriptTasks file relFile cmd fd (name # names) =
     (case findLineNumber fd name of
        Inl e \<Rightarrow> Inl e
      | Inr lineNo \<Rightarrow>
          (case scriptTasks file relFile cmd fd names of
             Inl e \<Rightarrow> Inl e
           | Inr tasks \<Rightarrow> Inr ((name, Some (scriptTask file relFile cmd lineNo name)) # tasks)))"

definition readPackageJson :: "env \<Rightarrow> string \<Rightarrow> string \<Rightarrow> File list \<times> (error + taskfile_Taskfile)" where
  "readPackageJson w projectRoot file =
     (case Open w file of
        Inl e \<Rightarrow> ([], Inl e)
      | Inr f \<Rightarrow>
          (case ReadAll w f of
             Inl e \<Rightarrow> ([f], Inl e)
           | Inr fd \<Rightarrow>
               (case jsonUnmarshal w fd of
                  Inl e \<Rightarrow> ([f], Inl e)
                | Inr p \<Rightarrow>
                    (case Getwd w of
                       Inl e \<Rightarrow> ([f], Inl (Panic ''os.Getwd''))
                     | Inr wd \<Rightarrow>
                         let relFile = (case Rel w wd file of Inl e \<Rightarrow> file | Inr r \<Rightarrow> r);
                             cmd = (if statOK w (Join [Dir file, ''yarn.lock''])
                                    then ''yarn'' else ''npm'')
                         in (case scriptTasks file relFile cmd fd (map fst (Scripts p)) of
                               Inl e \<Rightarrow> ([f], Inl e)
                             | Inr tasks \<Rightarrow>
                                 ([f], Inr \<lparr>tf_Version = ''3'', tf_Tasks = tasks,
                                    tf_Includes = [], tf_Vars = None, tf_Env = None,
                                    tf_Dotenv = []\<rparr>))))))"

section \<open>The resolver\<close>

text \<open>
  \<open>Taskfile\<close>, lines 45 to 239, in the order of the source. The function writes to the
  node it is given, so the model returns the node as the caller sees it afterwards.

  Lines 46 to 70: the directory and the entrypoint of the node.
\<close>

definition resolveNode :: "env \<Rightarrow> ReaderNode \<Rightarrow> ReaderNode \<times> error option" where
  "resolveNode w readerNode =
     (case (if rn_Dir readerNode = [] then
              (case Getwd w of
                 Inl e \<Rightarrow> Inl e
               | Inr d \<Rightarrow> Inr (ReaderNode d (rn_Entrypoint readerNode)
                             (rn_Optional readerNode) (rn_Parent readerNode)))
            else Inr readerNode) of
        Inl e \<Rightarrow> (readerNode, Some e)
      | Inr n \<Rightarrow>
          if rn_Entrypoint n = [] then
            (case searchForFile w (SmartJoin w (rn_Dir n) (rn_Entrypoint n)) ''Taskfile.yml'' of
               Inl e \<Rightarrow> (n, Some e)
             | Inr (path, found) \<Rightarrow>
                 if \<not> found then (n, Some (NoTaskfileFound (rn_Dir n)))
                 else (ReaderNode (Dir path) (Base path) (rn_Optional n) (rn_Parent n), None))
          else (n, None))"

text \<open>
  Lines 71 to 121: the declaration is read, every task without a directory gets the
  directory of the file, the version is parsed, and every include without a base
  directory gets the directory of the node.
\<close>

definition defaultDir :: "string \<Rightarrow> Task \<Rightarrow> Task" where
  "defaultDir taskFileDir task =
     (if t_Dir task = [] then task\<lparr>t_Dir := taskFileDir\<rparr> else task)"

definition setBaseDir :: "string \<Rightarrow> string \<times> IncludedTaskfile \<Rightarrow> string \<times> IncludedTaskfile" where
  "setBaseDir dir = (\<lambda>(key, includedFile).
     (key, if inc_BaseDir includedFile = [] then includedFile\<lparr>inc_BaseDir := dir\<rparr>
           else includedFile))"

definition loadDeclaration :: "env \<Rightarrow> ReaderNode \<Rightarrow> error + (taskfile_Taskfile \<times> string \<times> float64)" where
  "loadDeclaration w readerNode =
     (let path = SmartJoin w (rn_Dir readerNode) (rn_Entrypoint readerNode)
      in case Abs w (rn_Dir readerNode) of
           Inl e \<Rightarrow> Inl (AbsError (rn_Dir readerNode) e)
         | Inr projectRoot \<Rightarrow>
             (case (if HasSuffix path ''package.json''
                    then snd (readPackageJson w projectRoot path)
                    else snd (readTaskfile w path)) of
                Inl e \<Rightarrow> Inl e
              | Inr t \<Rightarrow>
                  let taskFileDir = Dir path
                  in if hasNilTask (tf_Tasks t) then Inl nilDeref
                     else
                       let t1 = t\<lparr>tf_Tasks := eachTask (defaultDir taskFileDir) (tf_Tasks t)\<rparr>
                       in (case ParsedVersion w t1 of
                             Inl e \<Rightarrow> Inl e
                           | Inr v \<Rightarrow>
                               Inr (t1\<lparr>tf_Includes :=
                                      map (setBaseDir (rn_Dir readerNode)) (tf_Includes t1)\<rparr>,
                                    taskFileDir, v))))"

text \<open>Lines 124 to 139: the two template fields of an include, from version 3.\<close>

definition templateInclude :: "env \<Rightarrow> float64 \<Rightarrow> IncludedTaskfile \<Rightarrow> error + IncludedTaskfile" where
  "templateInclude w v includedTask =
     (if ge3 v then
        (case Replace w (inc_Taskfile includedTask) of
           Inl e \<Rightarrow> Inl e
         | Inr tf \<Rightarrow>
             (case Replace w (inc_Dir includedTask) of
                Inl e \<Rightarrow> Inl e
              | Inr d \<Rightarrow>
                  Inr \<lparr>inc_Taskfile = tf, inc_Dir = d,
                       inc_Optional = inc_Optional includedTask,
                       inc_Internal = inc_Internal includedTask,
                       inc_Aliases = inc_Aliases includedTask,
                       inc_AdvancedImport = inc_AdvancedImport includedTask,
                       inc_Vars = inc_Vars includedTask,
                       inc_BaseDir = inc_BaseDir includedTask\<rparr>))
      else Inr includedTask)"

text \<open>
  Lines 141 to 174: the path of the include, the child node, the cycle guard, the
  recursive call \<open>recur\<close> and the dotenv check. The result \<open>Inr None\<close> is the
  \<open>return nil\<close> of an optional include that is skipped; the outer \<open>None\<close> is a
  recursive call that did not return.
\<close>

definition resolveChild :: "env \<Rightarrow> (ReaderNode \<Rightarrow> (ReaderNode \<times> (error + taskfile_Taskfile \<times> string)) option)
    \<Rightarrow> float64 \<Rightarrow> ReaderNode \<Rightarrow> IncludedTaskfile \<Rightarrow> (error + taskfile_Taskfile option) option" where
  "resolveChild w recur v readerNode includedTask =
     (case FullTaskfilePath w includedTask of
        Inl e \<Rightarrow> Some (Inl e)
      | Inr p \<Rightarrow>
          (case exists w p of
             Inl e \<Rightarrow>
               if inc_Optional includedTask \<and> \<not> isPanic e then Some (Inr None)
               else Some (Inl e)
           | Inr path \<Rightarrow>
               let includeReaderNode =
                     ReaderNode (Dir path) (Base path) (inc_Optional includedTask)
                       (Some readerNode)
               in (case checkCircularIncludes w (Some includeReaderNode) of
                     Some e \<Rightarrow> Some (Inl e)
                   | None \<Rightarrow>
                       (case recur includeReaderNode of
                          None \<Rightarrow> None
                        | Some (n, Inl e) \<Rightarrow>
                            if inc_Optional includedTask \<and> \<not> isPanic e then Some (Inr None)
                            else Some (Inl e)
                        | Some (n, Inr (includedTaskfile, d)) \<Rightarrow>
                            if ge3 v \<and> tf_Dotenv includedTaskfile \<noteq> []
                            then Some (Inl ErrIncludedTaskfilesCantHaveDotenvs)
                            else Some (Inr (Some includedTaskfile))))))"

text \<open>
  Lines 176 to 199: the advanced import. \<open>includedTaskfile.Vars.Mapping\<close> and
  \<open>includedTaskfile.Env.Mapping\<close> read through pointers, and the loop over the tasks
  writes through every task pointer.
\<close>

definition rebaseVars :: "string \<Rightarrow> Vars \<Rightarrow> Vars" where
  "rebaseVars dir vars =
     vars\<lparr>Mapping := map (\<lambda>(k, v). (k, v\<lparr>v_Dir := dir\<rparr>)) (Mapping vars)\<rparr>"

definition importTask :: "env \<Rightarrow> string \<Rightarrow> IncludedTaskfile \<Rightarrow> Vars \<Rightarrow> Task \<Rightarrow> Task" where
  "importTask w dir includedTask vars task =
     task\<lparr>t_Dir := SmartJoin w dir (t_Dir task),
       t_IncludeVars := inc_Vars includedTask,
       t_IncludedTaskfileVars := Some vars,
       t_IncludedTaskfile := Some includedTask\<rparr>"

definition advancedImport :: "env \<Rightarrow> IncludedTaskfile \<Rightarrow> taskfile_Taskfile \<Rightarrow> error + taskfile_Taskfile" where
  "advancedImport w includedTask includedTaskfile =
     (if inc_AdvancedImport includedTask then
        (case FullDirPath w includedTask of
           Inl e \<Rightarrow> Inl e
         | Inr dir \<Rightarrow>
             (case tf_Vars includedTaskfile of
                None \<Rightarrow> Inl nilDeref
              | Some vars \<Rightarrow>
                  (case tf_Env includedTaskfile of
                     None \<Rightarrow> Inl nilDeref
                   | Some envs \<Rightarrow>
                       if hasNilTask (tf_Tasks includedTaskfile) then Inl nilDeref
                       else Inr (includedTaskfile\<lparr>
                              tf_Vars := Some (rebaseVars dir vars),
                              tf_Env := Some (rebaseVars dir envs),
                              tf_Tasks := eachTask
                                (importTask w dir includedTask (rebaseVars dir vars))
                                (tf_Tasks includedTaskfile)\<rparr>))))
      else Inr includedTaskfile)"

text \<open>
  Lines 201 to 211: the merge and the alias of the default task.
  \<open>t.Tasks[defaultTaskName].Aliases\<close> reads through the pointer stored under that key.
\<close>

definition setTask :: "string \<Rightarrow> Task \<Rightarrow> (string \<times> Task option) list
    \<Rightarrow> (string \<times> Task option) list" where
  "setTask name task tasks = map (\<lambda>(k, v). if k = name then (k, Some task) else (k, v)) tasks"

definition mergeInclude :: "env \<Rightarrow> string \<Rightarrow> IncludedTaskfile \<Rightarrow> taskfile_Taskfile \<Rightarrow> taskfile_Taskfile
    \<Rightarrow> error + taskfile_Taskfile" where
  "mergeInclude w namespace includedTask t includedTaskfile =
     (case Merge w t includedTaskfile (Some includedTask) [namespace] of
        Inl e \<Rightarrow> Inl e
      | Inr t' \<Rightarrow>
          if lookupTask (tf_Tasks includedTaskfile) ''default'' \<noteq> None
             \<and> lookupTask (tf_Tasks t') namespace = None
          then
            (let defaultTaskName = namespace @ '':default''
             in case lookupTask (tf_Tasks t') defaultTaskName of
                  None \<Rightarrow> Inl nilDeref
                | Some task \<Rightarrow>
                    Inr (t'\<lparr>tf_Tasks :=
                           setTask defaultTaskName
                             (task\<lparr>t_Aliases :=
                                (t_Aliases task @ [namespace]) @ inc_Aliases includedTask\<rparr>)
                             (tf_Tasks t')\<rparr>))
          else Inr t')"

text \<open>Lines 123 to 212: the function given to \<open>t.Includes.Range\<close>.\<close>

definition includeStep :: "env \<Rightarrow> (ReaderNode \<Rightarrow> (ReaderNode \<times> (error + taskfile_Taskfile \<times> string)) option)
    \<Rightarrow> float64 \<Rightarrow> ReaderNode \<Rightarrow> taskfile_Taskfile \<Rightarrow> string \<times> IncludedTaskfile
    \<Rightarrow> (error + taskfile_Taskfile) option" where
  "includeStep w recur v readerNode t = (\<lambda>(namespace, includedTask0).
     (case templateInclude w v includedTask0 of
        Inl e \<Rightarrow> Some (Inl e)
      | Inr includedTask \<Rightarrow>
          (case resolveChild w recur v readerNode includedTask of
             None \<Rightarrow> None
           | Some (Inl e) \<Rightarrow> Some (Inl e)
           | Some (Inr None) \<Rightarrow> Some (Inr t)
           | Some (Inr (Some includedTaskfile)) \<Rightarrow>
               (case advancedImport w includedTask includedTaskfile of
                  Inl e \<Rightarrow> Some (Inl e)
                | Inr child \<Rightarrow> Some (mergeInclude w namespace includedTask t child)))))"

text \<open>
  \<open>Range\<close> calls the function on the includes in their order and stops at the first
  error. The includes it walks are those of the declaration when the loop starts.
\<close>

fun rangeIncludes :: "(taskfile_Taskfile \<Rightarrow> string \<times> IncludedTaskfile \<Rightarrow> (error + taskfile_Taskfile) option)
    \<Rightarrow> taskfile_Taskfile \<Rightarrow> (string \<times> IncludedTaskfile) list \<Rightarrow> (error + taskfile_Taskfile) option" where
  "rangeIncludes step t [] = Some (Inr t)"
| "rangeIncludes step t (x # xs) =
     (case step t x of
        None \<Rightarrow> None
      | Some (Inl e) \<Rightarrow> Some (Inl e)
      | Some (Inr t') \<Rightarrow> rangeIncludes step t' xs)"

text \<open>Lines 217 to 228: the sibling file of the operating system, below version 3.\<close>

definition mergeOSTaskfile :: "env \<Rightarrow> ReaderNode \<Rightarrow> float64 \<Rightarrow> taskfile_Taskfile \<Rightarrow> error + taskfile_Taskfile" where
  "mergeOSTaskfile w readerNode v t =
     (if lt3 v then
        (let path = SmartJoin w (rn_Dir readerNode) (''Taskfile_'' @ GOOS w @ ''.yml'')
         in if statOK w path then
              (case snd (readTaskfile w path) of
                 Inl e \<Rightarrow> Inl e
               | Inr osTaskfile \<Rightarrow> Merge w t osTaskfile None [])
            else Inr t)
      else Inr t)"

text \<open>Lines 230 to 236: the last pass over the tasks.\<close>

definition normalizeTasks :: "(string \<times> Task option) list \<Rightarrow> (string \<times> Task option) list" where
  "normalizeTasks tasks =
     map (\<lambda>(name, v).
            (name, Some ((case v of None \<Rightarrow> emptyTask | Some task \<Rightarrow> task)\<lparr>t_Task := name\<rparr>)))
       tasks"

text \<open>
  The recursion follows the includes of the file system and need not end, so the
  function takes the number of nested calls it may make: \<open>None\<close> is a call that has
  not returned within that depth.
\<close>

primrec Taskfile :: "nat \<Rightarrow> env \<Rightarrow> ReaderNode
    \<Rightarrow> (ReaderNode \<times> (error + taskfile_Taskfile \<times> string)) option" where
  "Taskfile 0 w readerNode = None"
| "Taskfile (Suc fuel) w readerNode =
     (case resolveNode w readerNode of
        (node, Some e) \<Rightarrow> Some (node, Inl e)
      | (node, None) \<Rightarrow>
          (case loadDeclaration w node of
             Inl e \<Rightarrow> Some (node, Inl e)
           | Inr (t, taskFileDir, v) \<Rightarrow>
               (case rangeIncludes (includeStep w (Taskfile fuel w) v node) t (tf_Includes t) of
                  None \<Rightarrow> None
                | Some (Inl e) \<Rightarrow> Some (node, Inl e)
                | Some (Inr t1) \<Rightarrow>
                    (case mergeOSTaskfile w node v t1 of
                       Inl e \<Rightarrow> Some (node, Inl e)
                     | Inr t2 \<Rightarrow>
                         Some (node, Inr (t2\<lparr>tf_Tasks := normalizeTasks (tf_Tasks t2)\<rparr>,
                                          taskFileDir))))))"

section \<open>A concrete environment\<close>

text \<open>
  The theorems below hold for every environment. Their witnesses and the
  counterexamples run the model in the environment \<open>demoEnv\<close>: a file system with the
  listed YAML declarations, manifests, other regular files and directories, and the
  working directory \<open>/p\<close>.

  Modelled from the spec: \<open>filepathext.SmartJoin\<close> is not among the sources; the spec
  (4.1, 4.5 g) has it look for a name inside a directory and put a path before a
  directory. \<open>joinPath\<close> joins its two arguments with \<open>filepath.Join\<close>; it is only
  applied to a relative second argument.
\<close>

definition joinPath :: "string \<Rightarrow> string \<Rightarrow> string" where
  "joinPath a b = Join [a, b]"

text \<open>
  Modelled from the spec: \<open>searchForFile\<close> is not among the sources; the spec (4.1,
  4.5 step 1) has the first declaration file found by probing the default names in the
  directory.
\<close>

definition probeDefaults :: "(string \<Rightarrow> error + bool) \<Rightarrow> string \<Rightarrow> string \<Rightarrow> error + (string \<times> bool)" where
  "probeDefaults stat dir name =
     (case find (\<lambda>n. case stat (joinPath dir n) of Inl e \<Rightarrow> False | Inr fi \<Rightarrow> True)
             defaultTaskfiles of
        Some n \<Rightarrow> Inr (joinPath dir n, True)
      | None \<Rightarrow> Inr ([], False))"

text \<open>
  Modelled from the spec: \<open>taskfile.Merge\<close> is not among the sources; the spec (6) has
  it insert every task of the child under the key \<open>namespace:name\<close>, and step 7 of 4.5
  has the merge without a namespace be flat. \<open>flatMerge\<close> stores every task of the
  child after those of the parent, under the namespaces and its name joined by colons,
  and leaves the rest of the parent as it is. It stores nothing
  under the bare namespace: lines 205 to 209 add the namespace as an alias afterwards.
\<close>

definition flatMerge :: "taskfile_Taskfile \<Rightarrow> taskfile_Taskfile \<Rightarrow> IncludedTaskfile option
    \<Rightarrow> string list \<Rightarrow> error + taskfile_Taskfile" where
  "flatMerge t1 t2 includedTaskfile namespaces =
     Inr (t1\<lparr>tf_Tasks := tf_Tasks t1 @
            map (\<lambda>(k, v). (joinWith '':'' (namespaces @ [k]), v)) (tf_Tasks t2)\<rparr>)"

text \<open>
  Modelled from the spec: \<open>FullTaskfilePath\<close> and \<open>FullDirPath\<close> are not among the
  sources; the spec (3, 4.5 b) has the base directory resolve the relative path
  templates of an include.
\<close>

definition fullPath :: "string \<Rightarrow> string \<Rightarrow> error + string" where
  "fullPath baseDir path = Inr (if IsAbs path then path else joinPath baseDir path)"

text \<open>
  Modelled from the spec: \<open>ParsedVersion\<close> is not among the sources; the spec (4.5
  step 4) has it parse the version string as a number. \<open>parseVersion\<close> knows the two
  version strings that the examples use.
\<close>

definition parseVersion :: "taskfile_Taskfile \<Rightarrow> error + float64" where
  "parseVersion t =
     (if tf_Version t = ''3'' then Inr (Finite 3)
      else if tf_Version t = ''2'' then Inr (Finite 2)
      else Inl (CollabError ''version''))"

definition relTo :: "string \<Rightarrow> string \<Rightarrow> error + string" where
  "relTo basepath targpath =
     (if HasPrefix targpath (basepath @ ''/'') then Inr (drop (Suc (length basepath)) targpath)
      else Inl (CollabError ''Rel''))"

definition demoEnv :: "(string \<times> taskfile_Taskfile) list \<Rightarrow> (string \<times> string \<times> packageJson) list
    \<Rightarrow> string list \<Rightarrow> string list \<Rightarrow> env" where
  "demoEnv yamls jsons others dirs =
     (let stat = (\<lambda>p. if p \<in> set (map fst yamls @ map fst jsons @ others) then Inr True
                      else if p \<in> set dirs then Inr False
                      else Inl (OSError ''stat'' p))
      in \<lparr>Getwd = Inr ''/p'',
          Stat = stat,
          Open = (\<lambda>p. if p \<in> set (map fst yamls @ map fst jsons @ others) then Inr p
                       else Inl (OSError ''open'' p)),
          ReadAll = (\<lambda>f. case map_of jsons f of
                            None \<Rightarrow> Inl (OSError ''read'' f) | Some (fd, p) \<Rightarrow> Inr fd),
          GOOS = ''linux'',
          Rel = relTo,
          yamlDecode = (\<lambda>f. case map_of yamls f of
                               None \<Rightarrow> Inl (CollabError ''yaml'') | Some t \<Rightarrow> Inr t),
          jsonUnmarshal = (\<lambda>fd. case map_of (map snd jsons) fd of
                                   None \<Rightarrow> Inl (CollabError ''json'') | Some p \<Rightarrow> Inr p),
          SmartJoin = joinPath,
          TryAbsToRel = (\<lambda>p. p),
          searchForFile = probeDefaults stat,
          ParsedVersion = parseVersion,
          Replace = Inr,
          FullTaskfilePath = (\<lambda>i. fullPath (inc_BaseDir i) (inc_Taskfile i)),
          FullDirPath = (\<lambda>i. fullPath (inc_BaseDir i) (inc_Dir i)),
          Merge = flatMerge\<rparr>)"

definition mkTask :: "string \<Rightarrow> Task" where
  "mkTask dir = emptyTask\<lparr>t_Dir := dir\<rparr>"

definition mkInclude :: "string \<Rightarrow> bool \<Rightarrow> bool \<Rightarrow> string list \<Rightarrow> IncludedTaskfile" where
  "mkInclude path optional advanced aliases =
     \<lparr>inc_Taskfile = path, inc_Dir = [], inc_Optional = optional, inc_Internal = False,
      inc_Aliases = aliases, inc_AdvancedImport = advanced, inc_Vars = None,
      inc_BaseDir = []\<rparr>"

definition mkTaskfile :: "string \<Rightarrow> (string \<times> Task option) list
    \<Rightarrow> (string \<times> IncludedTaskfile) list \<Rightarrow> string list \<Rightarrow> taskfile_Taskfile" where
  "mkTaskfile version tasks includes dotenv =
     \<lparr>tf_Version = version, tf_Tasks = tasks, tf_Includes = includes,
      tf_Vars = Some \<lparr>Mapping = []\<rparr>, tf_Env = Some \<lparr>Mapping = []\<rparr>, tf_Dotenv = dotenv\<rparr>"

section \<open>Example file systems\<close>

definition srcTask :: "string \<Rightarrow> string \<Rightarrow> string \<Rightarrow> string list \<Rightarrow> Task" where
  "srcTask name dir file aliases =
     emptyTask\<lparr>t_Task := name, t_Dir := dir, t_Taskfile := file, t_Aliases := aliases\<rparr>"

text \<open>One declaration \<open>/p/Taskfile.yml\<close> of version 3 with no task and no include.\<close>

definition plainEnv :: env where
  "plainEnv = demoEnv [(''/p/Taskfile.yml'', mkTaskfile ''3'' [] [] [])] [] [] [''/p'']"

text \<open>
  The manifest \<open>/p/package.json\<close> with the one script \<open>build\<close> on its third line, with
  or without a \<open>yarn.lock\<close> beside it.
\<close>

definition manifestText :: string where
  "manifestText =
     ''{'' @ [CHR 0x0A] @
     ''  '' @ [CHR 0x22] @ ''scripts'' @ [CHR 0x22] @ '': {'' @ [CHR 0x0A] @
     ''    '' @ [CHR 0x22] @ ''build'' @ [CHR 0x22] @ '': '' @ [CHR 0x22] @ ''tsc'' @ [CHR 0x22]
       @ [CHR 0x0A] @
     ''  }'' @ [CHR 0x0A] @
     ''}'' @ [CHR 0x0A]"

definition manifestEnv :: "bool \<Rightarrow> env" where
  "manifestEnv yarn =
     demoEnv [] [(''/p/package.json'', manifestText, \<lparr>Scripts = [(''build'', ''tsc'')]\<rparr>)]
       (if yarn then [''/p/yarn.lock''] else []) [''/p'']"

text \<open>
  \<open>/p/Taskfile.yml\<close> of version 3 with the task \<open>a\<close> includes \<open>/p/sub/Taskfile.yml\<close>
  under the namespace \<open>sub\<close>, with the alias \<open>s\<close> and the vars \<open>V\<close>; the child has the
  tasks \<open>default\<close> and \<open>build\<close>, the vars \<open>W\<close> and the given dotenv files.
\<close>

definition subInclude :: "bool \<Rightarrow> bool \<Rightarrow> IncludedTaskfile" where
  "subInclude optional advanced =
     (mkInclude ''sub/Taskfile.yml'' optional advanced [''s''])
       \<lparr>inc_Dir := ''sub'',
        inc_Vars := Some \<lparr>Mapping = [(''V'', \<lparr>v_Static = ''1'', v_Dir = []\<rparr>)]\<rparr>\<rparr>"

definition subChild :: "string list \<Rightarrow> taskfile_Taskfile" where
  "subChild dotenv =
     (mkTaskfile ''3'' [(''default'', Some (mkTask ''out'')), (''build'', Some (mkTask ''bin''))]
        [] dotenv)
       \<lparr>tf_Vars := Some \<lparr>Mapping = [(''W'', \<lparr>v_Static = ''2'', v_Dir = []\<rparr>)]\<rparr>\<rparr>"

definition subParent :: "bool \<Rightarrow> bool \<Rightarrow> taskfile_Taskfile" where
  "subParent optional advanced =
     mkTaskfile ''3'' [(''a'', Some (mkTask []))] [(''sub'', subInclude optional advanced)] []"

definition subEnv :: "bool \<Rightarrow> bool \<Rightarrow> string list \<Rightarrow> env" where
  "subEnv optional advanced dotenv =
     demoEnv [(''/p/Taskfile.yml'', subParent optional advanced),
              (''/p/sub/Taskfile.yml'', subChild dotenv)]
       [] [] [''/p'', ''/p/sub'']"

definition rootNode :: ReaderNode where
  "rootNode = ReaderNode [] [] False None"

definition pNode :: ReaderNode where
  "pNode = ReaderNode ''/p'' ''Taskfile.yml'' False None"

text \<open>The declaration that the resolver returns for \<open>subEnv False False []\<close>.\<close>

definition subResult :: taskfile_Taskfile where
  "subResult =
     (mkTaskfile ''3''
        [(''a'', Some (srcTask ''a'' ''/p'' ''/p/Taskfile.yml'' [])),
         (''sub:default'',
            Some (srcTask ''sub:default'' ''out'' ''/p/sub/Taskfile.yml'' [''sub'', ''s''])),
         (''sub:build'', Some (srcTask ''sub:build'' ''bin'' ''/p/sub/Taskfile.yml'' []))]
        [(''sub'', (subInclude False False)\<lparr>inc_BaseDir := ''/p''\<rparr>)] [])"

text \<open>
  The same parent where the file of the child is a regular file that does not decode.
\<close>

definition brokenEnv :: env where
  "brokenEnv =
     demoEnv [(''/p/Taskfile.yml'', subParent True False)] [] [''/p/sub/Taskfile.yml'']
       [''/p'', ''/p/sub'']"

text \<open>
  The parent as \<open>loadDeclaration\<close> returns it, its include after the templates, the
  node of the child, and the child as the recursive call returns it.
\<close>

definition subIncludeBased :: "bool \<Rightarrow> bool \<Rightarrow> IncludedTaskfile" where
  "subIncludeBased optional advanced = (subInclude optional advanced)\<lparr>inc_BaseDir := ''/p''\<rparr>"

definition subParentLoaded :: "bool \<Rightarrow> bool \<Rightarrow> taskfile_Taskfile" where
  "subParentLoaded optional advanced =
     mkTaskfile ''3'' [(''a'', Some (srcTask [] ''/p'' ''/p/Taskfile.yml'' []))]
       [(''sub'', subIncludeBased optional advanced)] []"

definition subChildNode :: "bool \<Rightarrow> bool \<Rightarrow> ReaderNode" where
  "subChildNode optional advanced =
     ReaderNode (Dir ''/p/sub/Taskfile.yml'') (Base ''/p/sub/Taskfile.yml'')
       (inc_Optional (subIncludeBased optional advanced)) (Some pNode)"

definition subChildResolved :: "string list \<Rightarrow> taskfile_Taskfile" where
  "subChildResolved dotenv =
     (mkTaskfile ''3''
        [(''default'', Some (srcTask ''default'' ''out'' ''/p/sub/Taskfile.yml'' [])),
         (''build'', Some (srcTask ''build'' ''bin'' ''/p/sub/Taskfile.yml'' []))]
        [] dotenv)
       \<lparr>tf_Vars := Some \<lparr>Mapping = [(''W'', \<lparr>v_Static = ''2'', v_Dir = []\<rparr>)]\<rparr>\<rparr>"

text \<open>
  The declaration that \<open>flatMerge\<close> returns for the loaded parent and the resolved
  child of \<open>subEnv False False []\<close>.
\<close>

definition subMerged :: taskfile_Taskfile where
  "subMerged =
     mkTaskfile ''3''
       [(''a'', Some (srcTask [] ''/p'' ''/p/Taskfile.yml'' [])),
        (''sub:default'', Some (srcTask ''default'' ''out'' ''/p/sub/Taskfile.yml'' [])),
        (''sub:build'', Some (srcTask ''build'' ''bin'' ''/p/sub/Taskfile.yml'' []))]
       [(''sub'', subIncludeBased False False)] []"

text \<open>
  \<open>/p/Taskfile.yml\<close> includes \<open>/p/sub/Taskfile.yml\<close> under the namespace \<open>sub\<close>, and
  \<open>/p/sub/Taskfile.yml\<close> includes \<open>/p/Taskfile.yml\<close> under the namespace \<open>up\<close>; the two
  flags are the optional flags of the two includes. The definitions after the
  environment are the two includes with their base directories, the two declarations
  as \<open>loadDeclaration\<close> returns them, the node of the child, and the parent as the
  resolver returns it when the child is skipped.
\<close>

definition cycleParent :: "bool \<Rightarrow> taskfile_Taskfile" where
  "cycleParent optAB =
     mkTaskfile ''3'' [(''a'', Some (mkTask []))]
       [(''sub'', mkInclude ''sub/Taskfile.yml'' optAB False [])] []"

definition cycleChild :: "bool \<Rightarrow> taskfile_Taskfile" where
  "cycleChild optBA =
     mkTaskfile ''3'' [(''b'', Some (mkTask []))]
       [(''up'', mkInclude ''../Taskfile.yml'' optBA False [])] []"

definition cycleEnv :: "bool \<Rightarrow> bool \<Rightarrow> env" where
  "cycleEnv optAB optBA =
     demoEnv [(''/p/Taskfile.yml'', cycleParent optAB),
              (''/p/sub/Taskfile.yml'', cycleChild optBA)]
       [] [] [''/p'', ''/p/sub'']"

definition cycleDown :: "bool \<Rightarrow> IncludedTaskfile" where
  "cycleDown optAB = (mkInclude ''sub/Taskfile.yml'' optAB False [])\<lparr>inc_BaseDir := ''/p''\<rparr>"

definition cycleUp :: "bool \<Rightarrow> IncludedTaskfile" where
  "cycleUp optBA = (mkInclude ''../Taskfile.yml'' optBA False [])\<lparr>inc_BaseDir := ''/p/sub''\<rparr>"

definition cycleParentLoaded :: "bool \<Rightarrow> taskfile_Taskfile" where
  "cycleParentLoaded optAB =
     mkTaskfile ''3'' [(''a'', Some (srcTask [] ''/p'' ''/p/Taskfile.yml'' []))]
       [(''sub'', cycleDown optAB)] []"

definition cycleChildLoaded :: "bool \<Rightarrow> taskfile_Taskfile" where
  "cycleChildLoaded optBA =
     mkTaskfile ''3'' [(''b'', Some (srcTask [] ''/p/sub'' ''/p/sub/Taskfile.yml'' []))]
       [(''up'', cycleUp optBA)] []"

definition cycleChildNode :: "bool \<Rightarrow> ReaderNode" where
  "cycleChildNode optAB = ReaderNode ''/p/sub'' ''Taskfile.yml'' optAB (Some pNode)"

definition cycleParentResolved :: "bool \<Rightarrow> taskfile_Taskfile" where
  "cycleParentResolved optAB =
     mkTaskfile ''3'' [(''a'', Some (srcTask ''a'' ''/p'' ''/p/Taskfile.yml'' []))]
       [(''sub'', cycleDown optAB)] []"





section \<open>Properties of the collaborators\<close>





section \<open>Helper lemmas\<close>

lemma normalizeTasks_entry:
  "(name, v) \<in> set (normalizeTasks tasks) \<Longrightarrow> \<exists>task. v = Some task \<and> t_Task task = name"
  by (auto simp: normalizeTasks_def)

lemma Taskfile_Inr_elim:
  assumes "Taskfile fuel w readerNode = Some (node, Inr (t, dir))"
  obtains fuel' t0 v t1 t2 where "fuel = Suc fuel'"
    and "resolveNode w readerNode = (node, None)"
    and "loadDeclaration w node = Inr (t0, dir, v)"
    and "rangeIncludes (includeStep w (Taskfile fuel' w) v node) t0 (tf_Includes t0)
           = Some (Inr t1)"
    and "mergeOSTaskfile w node v t1 = Inr t2"
    and "t = t2\<lparr>tf_Tasks := normalizeTasks (tf_Tasks t2)\<rparr>"
proof (cases fuel)
  case 0
  with assms show ?thesis by simp
next
  case (Suc fuel')
  with assms that show ?thesis
    by (auto split: prod.splits option.splits sum.splits)
qed

lemma Taskfile_node:
  assumes "Taskfile fuel w readerNode = Some (node, r)"
  shows "node = fst (resolveNode w readerNode)"
proof (cases fuel)
  case 0
  with assms show ?thesis by simp
next
  case (Suc fuel')
  with assms show ?thesis
    by (auto split: prod.splits option.splits sum.splits)
qed

section \<open>The depth bound\<close>

text \<open>
  A call that returns within some depth returns the same result within every greater
  depth: the bound only cuts calls off, it never changes what they return.
\<close>

lemma resolveChild_mono:
  assumes "\<And>n r. recur n = Some r \<Longrightarrow> recur' n = Some r"
    and "resolveChild w recur v node includedTask = Some x"
  shows "resolveChild w recur' v node includedTask = Some x"
proof (cases "FullTaskfilePath w includedTask")
  case (Inl e)
  with assms(2) show ?thesis by (simp add: resolveChild_def)
next
  case p: (Inr p)
  show ?thesis
  proof (cases "exists w p")
    case (Inl e)
    with assms(2) p show ?thesis by (simp add: resolveChild_def)
  next
    case path: (Inr path)
    let ?n = "ReaderNode (Dir path) (Base path) (inc_Optional includedTask) (Some node)"
    show ?thesis
    proof (cases "checkCircularIncludes w (Some ?n)")
      case (Some e)
      with assms(2) p path show ?thesis by (simp add: resolveChild_def)
    next
      case None
      with assms(2) p path obtain r where r: "recur ?n = Some r"
        by (auto simp: resolveChild_def split: option.splits)
      then have "recur' ?n = Some r"
        by (rule assms(1))
      with assms(2) p path None r show ?thesis
        by (simp add: resolveChild_def)
    qed
  qed
qed

lemma includeStep_mono:
  assumes "\<And>n r. recur n = Some r \<Longrightarrow> recur' n = Some r"
    and "includeStep w recur v node t x = Some y"
  shows "includeStep w recur' v node t x = Some y"
proof -
  obtain namespace includedTask0 where x: "x = (namespace, includedTask0)"
    by (cases x)
  show ?thesis
  proof (cases "templateInclude w v includedTask0")
    case (Inl e)
    with assms(2) show ?thesis by (simp add: includeStep_def x)
  next
    case (Inr includedTask)
    with assms(2) obtain c where c: "resolveChild w recur v node includedTask = Some c"
      by (auto simp: includeStep_def x split: option.splits)
    with assms(1) have "resolveChild w recur' v node includedTask = Some c"
      by (rule resolveChild_mono)
    with assms(2) Inr c show ?thesis
      by (simp add: includeStep_def x)
  qed
qed

lemma rangeIncludes_mono:
  assumes "\<And>t x y. step t x = Some y \<Longrightarrow> step' t x = Some y"
  shows "rangeIncludes step t xs = Some r \<Longrightarrow> rangeIncludes step' t xs = Some r"
proof (induction xs arbitrary: t)
  case Nil
  then show ?case by simp
next
  case (Cons x xs)
  from Cons.prems obtain y where y: "step t x = Some y"
    by (auto split: option.splits)
  then have y': "step' t x = Some y"
    by (rule assms)
  show ?case
  proof (cases y)
    case (Inl e)
    with Cons.prems y y' show ?thesis by auto
  next
    case (Inr t1)
    with Cons.prems y have "rangeIncludes step t1 xs = Some r"
      by simp
    then have "rangeIncludes step' t1 xs = Some r"
      by (rule Cons.IH)
    with y' Inr show ?thesis by simp
  qed
qed

lemma Taskfile_Suc_fuel:
  "Taskfile fuel w readerNode = Some r \<Longrightarrow> Taskfile (Suc fuel) w readerNode = Some r"
proof (induction fuel arbitrary: readerNode r)
  case 0
  then show ?case by simp
next
  case (Suc fuel)
  have step: "includeStep w (Taskfile (Suc fuel) w) v node t x = Some y"
    if "includeStep w (Taskfile fuel w) v node t x = Some y" for v node t x y
    using Suc.IH that by (rule includeStep_mono)
  have range: "rangeIncludes (includeStep w (Taskfile (Suc fuel) w) v node) t xs = Some y"
    if "rangeIncludes (includeStep w (Taskfile fuel w) v node) t xs = Some y" for v node t xs y
    using step that by (rule rangeIncludes_mono)
  obtain node e where node: "resolveNode w readerNode = (node, e)"
    by (cases "resolveNode w readerNode")
  show ?case
  proof (cases e)
    case (Some err)
    with Suc.prems node show ?thesis by simp
  next
    case None
    show ?thesis
    proof (cases "loadDeclaration w node")
      case (Inl err)
      with Suc.prems node None show ?thesis by simp
    next
      case (Inr loaded)
      obtain t d v where loaded: "loaded = (t, d, v)"
        by (cases loaded)
      from Suc.prems node None Inr loaded obtain y where
        y: "rangeIncludes (includeStep w (Taskfile fuel w) v node) t (tf_Includes t) = Some y"
        by (auto split: option.splits)
      from range [OF y] Suc.prems node None Inr loaded y show ?thesis
        by simp
    qed
  qed
qed

lemma Taskfile_more_fuel:
  assumes "Taskfile fuel w readerNode = Some r" and "fuel \<le> fuel'"
  shows "Taskfile fuel' w readerNode = Some r"
  using assms(2,1)
proof (induction rule: dec_induct)
  case base
  then show ?case .
next
  case (step n)
  then have "Taskfile n w readerNode = Some r"
    by blast
  then show ?case
    by (rule Taskfile_Suc_fuel)
qed

section \<open>Names and keys\<close>

text \<open>
  Claim C4. In every declaration that the resolver returns, no key of the task mapping
  is stored with a nil task, and the name of every task is the key it is stored under.
  The hypothesis is a successful return of \<open>Taskfile\<close>, so the tasks are those left by
  the last pass (lines 230 to 236), which runs after the includes and after the merge
  of the sibling file of the operating system, whatever \<open>Merge\<close> has stored.
\<close>

theorem task_names_equal_keys:
  assumes "Taskfile fuel w readerNode = Some (node, Inr (t, dir))"
  shows "\<forall>(name, v) \<in> set (tf_Tasks t). \<exists>task. v = Some task \<and> t_Task task = name"
proof -
  from assms obtain t2 where "t = t2\<lparr>tf_Tasks := normalizeTasks (tf_Tasks t2)\<rparr>"
    by (rule Taskfile_Inr_elim)
  then show ?thesis
    by (auto dest: normalizeTasks_entry)
qed

theorem task_names_equal_keys_witness:
  "Taskfile 2 (subEnv False False []) rootNode = Some (pNode, Inr (subResult, ''/p''))
   \<and> list_all (\<lambda>(name, v). \<exists>task. v = Some task \<and> t_Task task = name) (tf_Tasks subResult)"
proof -
  have run: "Taskfile 2 (subEnv False False []) rootNode = Some (pNode, Inr (subResult, ''/p''))"
    by code_simp
  from task_names_equal_keys [OF run] show ?thesis
    using run by (simp add: list_all_iff)
qed

section \<open>The node after the call\<close>

text \<open>
  Claim C10. Whenever \<open>Taskfile\<close> returns, with a declaration or with an error, the
  node of the caller has its optional flag and its parent as before, and:
  a node with a directory and an entrypoint is unchanged; an empty directory has been
  overwritten with the working directory; and where the entrypoint was empty and
  \<open>searchForFile\<close> has found the path of a declaration, the directory and the
  entrypoint have been overwritten with \<open>filepath.Dir\<close> and \<open>filepath.Base\<close> of
  that path.
\<close>

theorem resolve_writes_node:
  assumes "Taskfile fuel w readerNode = Some (node, r)"
  shows "rn_Optional node = rn_Optional readerNode \<and> rn_Parent node = rn_Parent readerNode
    \<and> (rn_Dir readerNode \<noteq> [] \<and> rn_Entrypoint readerNode \<noteq> [] \<longrightarrow> node = readerNode)
    \<and> (rn_Dir readerNode = [] \<and> rn_Entrypoint readerNode \<noteq> [] \<and> Getwd w = Inr d
         \<longrightarrow> rn_Dir node = d \<and> rn_Entrypoint node = rn_Entrypoint readerNode)
    \<and> (rn_Entrypoint readerNode = [] \<and> rn_Dir readerNode \<noteq> []
         \<and> searchForFile w (SmartJoin w (rn_Dir readerNode) []) ''Taskfile.yml''
             = Inr (path, True)
         \<longrightarrow> rn_Dir node = Dir path \<and> rn_Entrypoint node = Base path)
    \<and> (rn_Entrypoint readerNode = [] \<and> rn_Dir readerNode = [] \<and> Getwd w = Inr d
         \<and> searchForFile w (SmartJoin w d []) ''Taskfile.yml'' = Inr (path, True)
         \<longrightarrow> rn_Dir node = Dir path \<and> rn_Entrypoint node = Base path)"
proof -
  have "node = fst (resolveNode w readerNode)"
    using assms by (rule Taskfile_node)
  then show ?thesis
    by (cases readerNode) (auto simp: resolveNode_def split: sum.splits prod.splits)
qed

theorem resolve_writes_node_witness:
  "Taskfile 1 plainEnv (ReaderNode [] [] False None)
     = Some (ReaderNode ''/p'' ''Taskfile.yml'' False None, Inr (mkTaskfile ''3'' [] [] [], ''/p''))
   \<and> Getwd plainEnv = Inr ''/p''
   \<and> searchForFile plainEnv (SmartJoin plainEnv ''/p'' []) ''Taskfile.yml''
       = Inr (''/p/Taskfile.yml'', True)
   \<and> Dir ''/p/Taskfile.yml'' = ''/p'' \<and> Base ''/p/Taskfile.yml'' = ''Taskfile.yml''
   \<and> Taskfile 1 plainEnv (ReaderNode [] ''Taskfile.yml'' True None)
       = Some (ReaderNode ''/p'' ''Taskfile.yml'' True None, Inr (mkTaskfile ''3'' [] [] [], ''/p''))"
proof -
  have run1: "Taskfile 1 plainEnv (ReaderNode [] [] False None)
     = Some (ReaderNode ''/p'' ''Taskfile.yml'' False None, Inr (mkTaskfile ''3'' [] [] [], ''/p''))"
    by code_simp
  have run2: "Taskfile 1 plainEnv (ReaderNode [] ''Taskfile.yml'' True None)
     = Some (ReaderNode ''/p'' ''Taskfile.yml'' True None, Inr (mkTaskfile ''3'' [] [] [], ''/p''))"
    by code_simp
  have wd: "Getwd plainEnv = Inr ''/p''"
    by code_simp
  have found: "searchForFile plainEnv (SmartJoin plainEnv ''/p'' []) ''Taskfile.yml''
       = Inr (''/p/Taskfile.yml'', True)"
    by code_simp
  have paths: "Dir ''/p/Taskfile.yml'' = ''/p'' \<and> Base ''/p/Taskfile.yml'' = ''Taskfile.yml''"
    by code_simp
  from resolve_writes_node [OF run1, of "''/p''" "''/p/Taskfile.yml''"]
       resolve_writes_node [OF run2, of "''/p''" "''/p/Taskfile.yml''"]
  show ?thesis
    using run1 run2 wd found paths by simp
qed

section \<open>File handles\<close>

text \<open>
  Claim C8, as amended. Neither loader releases the handle it opens: whenever
  \<open>os.Open\<close> succeeds, the handle is still open when \<open>readTaskfile\<close> and
  \<open>readPackageJson\<close> return, on the error returns as on the successful one.
\<close>

theorem handles_stay_open:
  assumes "Open w file = Inr f"
  shows "fst (readTaskfile w file) = [f] \<and> fst (readPackageJson w projectRoot file) = [f]"
  using assms
  by (auto simp: readTaskfile_def readPackageJson_def Let_def split: sum.splits)

theorem handles_stay_open_witness:
  "Open (manifestEnv False) ''/p/package.json'' = Inr ''/p/package.json''
   \<and> fst (readTaskfile (manifestEnv False) ''/p/package.json'') = [''/p/package.json'']
   \<and> fst (readPackageJson (manifestEnv False) ''/p'' ''/p/package.json'') = [''/p/package.json'']"
proof -
  have opened: "Open (manifestEnv False) ''/p/package.json'' = Inr ''/p/package.json''"
    by code_simp
  from handles_stay_open [OF opened, of "''/p''"] show ?thesis
    using opened by simp
qed

text \<open>
  The claim as stated fails: \<open>readTaskfile\<close> returns the declaration of
  \<open>/p/Taskfile.yml\<close> and leaves the handle of that file open.
\<close>

theorem handle_released_counterexample:
  "readTaskfile plainEnv ''/p/Taskfile.yml''
     = ([''/p/Taskfile.yml''], Inr (mkTaskfile ''3'' [] [] []))"
  by code_simp

section \<open>The manifest adapter\<close>

text \<open>
  Claim C7. For a manifest that opens, reads and decodes to the scripts mapping
  \<open>{"build": "tsc"}\<close>, where the working directory is known and the scan for the line
  of \<open>build\<close> ends: \<open>readPackageJson\<close> returns a declaration with exactly one task,
  keyed \<open>build\<close>, whose commands are \<open>npm install --silent --frozen-lockfile\<close> and
  \<open>npm run build\<close> when \<open>os.Stat\<close> fails on \<open>yarn.lock\<close> beside the manifest, and the
  same two commands with \<open>yarn\<close> when it succeeds.
\<close>

theorem manifest_build_task:
  assumes "Open w file = Inr f" and "ReadAll w f = Inr fd" and "jsonUnmarshal w fd = Inr p"
    and "Scripts p = [(''build'', ''tsc'')]"
    and "Getwd w = Inr wd" and "findLineNumber fd ''build'' = Inr lineNo"
  shows "\<exists>t task. snd (readPackageJson w projectRoot file) = Inr t
    \<and> tf_Tasks t = [(''build'', Some task)]
    \<and> (\<not> statOK w (Join [Dir file, ''yarn.lock'']) \<longrightarrow>
         t_Cmds task = [\<lparr>c_Cmd = ''npm install --silent --frozen-lockfile''\<rparr>,
                        \<lparr>c_Cmd = ''npm run build''\<rparr>])
    \<and> (statOK w (Join [Dir file, ''yarn.lock'']) \<longrightarrow>
         t_Cmds task = [\<lparr>c_Cmd = ''yarn install --silent --frozen-lockfile''\<rparr>,
                        \<lparr>c_Cmd = ''yarn run build''\<rparr>])"
  using assms
  by (simp add: readPackageJson_def Let_def scriptTask_def)

theorem manifest_build_task_witness:
  "Open (manifestEnv False) ''/p/package.json'' = Inr ''/p/package.json''
   \<and> ReadAll (manifestEnv False) ''/p/package.json'' = Inr manifestText
   \<and> jsonUnmarshal (manifestEnv False) manifestText = Inr \<lparr>Scripts = [(''build'', ''tsc'')]\<rparr>
   \<and> Getwd (manifestEnv False) = Inr ''/p''
   \<and> findLineNumber manifestText ''build'' = Inr '':3''
   \<and> \<not> statOK (manifestEnv False) (Join [Dir ''/p/package.json'', ''yarn.lock''])
   \<and> (\<exists>t task. snd (readPackageJson (manifestEnv False) ''/p'' ''/p/package.json'') = Inr t
        \<and> tf_Tasks t = [(''build'', Some task)]
        \<and> t_Cmds task = [\<lparr>c_Cmd = ''npm install --silent --frozen-lockfile''\<rparr>,
                          \<lparr>c_Cmd = ''npm run build''\<rparr>])
   \<and> statOK (manifestEnv True) (Join [Dir ''/p/package.json'', ''yarn.lock''])
   \<and> (\<exists>t task. snd (readPackageJson (manifestEnv True) ''/p'' ''/p/package.json'') = Inr t
        \<and> tf_Tasks t = [(''build'', Some task)]
        \<and> t_Cmds task = [\<lparr>c_Cmd = ''yarn install --silent --frozen-lockfile''\<rparr>,
                          \<lparr>c_Cmd = ''yarn run build''\<rparr>])"
proof -
  have n1: "Open (manifestEnv False) ''/p/package.json'' = Inr ''/p/package.json''"
    by code_simp
  have n2: "ReadAll (manifestEnv False) ''/p/package.json'' = Inr manifestText"
    by code_simp
  have n3: "jsonUnmarshal (manifestEnv False) manifestText
              = Inr \<lparr>Scripts = [(''build'', ''tsc'')]\<rparr>"
    by code_simp
  have n5: "Getwd (manifestEnv False) = Inr ''/p''"
    by code_simp
  have y1: "Open (manifestEnv True) ''/p/package.json'' = Inr ''/p/package.json''"
    by code_simp
  have y2: "ReadAll (manifestEnv True) ''/p/package.json'' = Inr manifestText"
    by code_simp
  have y3: "jsonUnmarshal (manifestEnv True) manifestText
              = Inr \<lparr>Scripts = [(''build'', ''tsc'')]\<rparr>"
    by code_simp
  have y5: "Getwd (manifestEnv True) = Inr ''/p''"
    by code_simp
  have h4: "Scripts \<lparr>Scripts = [(''build'', ''tsc'')]\<rparr> = [(''build'', ''tsc'')]"
    by simp
  have h6: "findLineNumber manifestText ''build'' = Inr '':3''"
    by (simp add: findLineNumber_def manifestText_def scanLines_def MaxScanTokenSize_def
        dropCR_def HasPrefix_def showNat.simps digitChar_def)
  have npm: "\<not> statOK (manifestEnv False) (Join [Dir ''/p/package.json'', ''yarn.lock''])"
    by code_simp
  have yarn: "statOK (manifestEnv True) (Join [Dir ''/p/package.json'', ''yarn.lock''])"
    by code_simp
  from manifest_build_task [OF n1 n2 n3 h4 n5 h6, of "''/p''"] npm
  have a: "\<exists>t task. snd (readPackageJson (manifestEnv False) ''/p'' ''/p/package.json'') = Inr t
        \<and> tf_Tasks t = [(''build'', Some task)]
        \<and> t_Cmds task = [\<lparr>c_Cmd = ''npm install --silent --frozen-lockfile''\<rparr>,
                          \<lparr>c_Cmd = ''npm run build''\<rparr>]"
    by blast
  from manifest_build_task [OF y1 y2 y3 h4 y5 h6, of "''/p''"] yarn
  have b: "\<exists>t task. snd (readPackageJson (manifestEnv True) ''/p'' ''/p/package.json'') = Inr t
        \<and> tf_Tasks t = [(''build'', Some task)]
        \<and> t_Cmds task = [\<lparr>c_Cmd = ''yarn install --silent --frozen-lockfile''\<rparr>,
                          \<lparr>c_Cmd = ''yarn run build''\<rparr>]"
    by blast
  show ?thesis
    using n1 n2 n3 n5 h6 npm yarn a b by blast
qed

section \<open>The include loop\<close>

lemma rangeIncludes_append:
  "rangeIncludes step t (pre @ xs) =
     (case rangeIncludes step t pre of
        None \<Rightarrow> None
      | Some (Inl e) \<Rightarrow> Some (Inl e)
      | Some (Inr t') \<Rightarrow> rangeIncludes step t' xs)"
  by (induction pre arbitrary: t) (auto split: option.splits sum.splits)

lemma rangeIncludes_stops:
  assumes "rangeIncludes step t pre = Some (Inr t1)" and "step t1 x = Some (Inl e)"
  shows "rangeIncludes step t (pre @ x # post) = Some (Inl e)"
  using assms by (simp add: rangeIncludes_append)

lemma rangeIncludes_skips:
  assumes "rangeIncludes step t pre = Some (Inr t1)" and "step t1 x = Some (Inr t2)"
  shows "rangeIncludes step t (pre @ x # post) = rangeIncludes step t2 post"
  using assms by (simp add: rangeIncludes_append)

lemma Taskfile_include_error:
  assumes "resolveNode w readerNode = (node, None)"
    and "loadDeclaration w node = Inr (t, taskFileDir, v)"
    and "tf_Includes t = pre @ x # post"
    and "rangeIncludes (includeStep w (Taskfile fuel w) v node) t pre = Some (Inr t1)"
    and "includeStep w (Taskfile fuel w) v node t1 x = Some (Inl e)"
  shows "Taskfile (Suc fuel) w readerNode = Some (node, Inl e)"
  using assms rangeIncludes_stops [OF assms(4) assms(5), of post] by simp

lemma resolveChild_dotenv:
  assumes "FullTaskfilePath w includedTask = Inr p" and "exists w p = Inr path"
    and "checkCircularIncludes w
           (Some (ReaderNode (Dir path) (Base path) (inc_Optional includedTask) (Some node)))
         = None"
    and "recur (ReaderNode (Dir path) (Base path) (inc_Optional includedTask) (Some node))
         = Some (n, Inr (includedTaskfile, d))"
    and "ge3 v" and "tf_Dotenv includedTaskfile \<noteq> []"
  shows "resolveChild w recur v node includedTask
         = Some (Inl ErrIncludedTaskfilesCantHaveDotenvs)"
  using assms by (simp add: resolveChild_def)

lemma resolveChild_swallows:
  assumes "FullTaskfilePath w includedTask = Inr p" and "exists w p = Inr path"
    and "checkCircularIncludes w
           (Some (ReaderNode (Dir path) (Base path) (inc_Optional includedTask) (Some node)))
         = None"
    and "recur (ReaderNode (Dir path) (Base path) (inc_Optional includedTask) (Some node))
         = Some (n, Inl e)"
    and "inc_Optional includedTask" and "\<not> isPanic e"
  shows "resolveChild w recur v node includedTask = Some (Inr None)"
  using assms by (simp add: resolveChild_def)

section \<open>Dotenv files in an included declaration\<close>

text \<open>
  Claim C2. A parent of version at least 3.0 is loaded, its includes before this one
  have been merged, and this include resolves to a file that passes the cycle guard.
  If the recursive call for the child returns a declaration and that declaration has a
  dotenv file, the resolution of the parent returns the error
  \<open>ErrIncludedTaskfilesCantHaveDotenvs\<close>.
\<close>

theorem dotenv_in_include_fails:
  assumes "resolveNode w readerNode = (node, None)"
    and "loadDeclaration w node = Inr (t, taskFileDir, v)"
    and "ge3 v"
    and "tf_Includes t = pre @ (namespace, includedTask0) # post"
    and "rangeIncludes (includeStep w (Taskfile fuel w) v node) t pre = Some (Inr t1)"
    and "templateInclude w v includedTask0 = Inr includedTask"
    and "FullTaskfilePath w includedTask = Inr p"
    and "exists w p = Inr path"
    and "checkCircularIncludes w
           (Some (ReaderNode (Dir path) (Base path) (inc_Optional includedTask) (Some node)))
         = None"
    and "Taskfile fuel w
           (ReaderNode (Dir path) (Base path) (inc_Optional includedTask) (Some node))
         = Some (n, Inr (includedTaskfile, d))"
    and "tf_Dotenv includedTaskfile \<noteq> []"
  shows "Taskfile (Suc fuel) w readerNode
         = Some (node, Inl ErrIncludedTaskfilesCantHaveDotenvs)"
proof -
  have "resolveChild w (Taskfile fuel w) v node includedTask
        = Some (Inl ErrIncludedTaskfilesCantHaveDotenvs)"
    using assms(7-10) assms(3) assms(11) by (rule resolveChild_dotenv)
  then have "includeStep w (Taskfile fuel w) v node t1 (namespace, includedTask0)
        = Some (Inl ErrIncludedTaskfilesCantHaveDotenvs)"
    using assms(6) by (simp add: includeStep_def)
  with assms(1,2,4,5) show ?thesis
    by (rule Taskfile_include_error)
qed

theorem dotenv_in_include_fails_witness:
  "resolveNode (subEnv False False [''.env'']) rootNode = (pNode, None)
   \<and> loadDeclaration (subEnv False False [''.env'']) pNode
       = Inr (subParentLoaded False False, ''/p'', Finite 3)
   \<and> ge3 (Finite 3)
   \<and> tf_Includes (subParentLoaded False False) = [] @ (''sub'', subIncludeBased False False) # []
   \<and> templateInclude (subEnv False False [''.env'']) (Finite 3) (subIncludeBased False False)
       = Inr (subIncludeBased False False)
   \<and> FullTaskfilePath (subEnv False False [''.env'']) (subIncludeBased False False)
       = Inr ''/p/sub/Taskfile.yml''
   \<and> exists (subEnv False False [''.env'']) ''/p/sub/Taskfile.yml'' = Inr ''/p/sub/Taskfile.yml''
   \<and> checkCircularIncludes (subEnv False False [''.env'']) (Some (subChildNode False False)) = None
   \<and> Taskfile 1 (subEnv False False [''.env'']) (subChildNode False False)
       = Some (subChildNode False False, Inr (subChildResolved [''.env''], ''/p/sub''))
   \<and> tf_Dotenv (subChildResolved [''.env'']) \<noteq> []
   \<and> Taskfile 2 (subEnv False False [''.env'']) rootNode
       = Some (pNode, Inl ErrIncludedTaskfilesCantHaveDotenvs)"
proof -
  let ?w = "subEnv False False [''.env'']"
  have a1: "resolveNode ?w rootNode = (pNode, None)"
    by code_simp
  have a2: "loadDeclaration ?w pNode = Inr (subParentLoaded False False, ''/p'', Finite 3)"
    by code_simp
  have a3: "ge3 (Finite 3)"
    by simp
  have a4: "tf_Includes (subParentLoaded False False)
            = [] @ (''sub'', subIncludeBased False False) # []"
    by code_simp
  have a5: "rangeIncludes (includeStep ?w (Taskfile 1 ?w) (Finite 3) pNode)
              (subParentLoaded False False) [] = Some (Inr (subParentLoaded False False))"
    by simp
  have a6: "templateInclude ?w (Finite 3) (subIncludeBased False False)
            = Inr (subIncludeBased False False)"
    by code_simp
  have a7: "FullTaskfilePath ?w (subIncludeBased False False) = Inr ''/p/sub/Taskfile.yml''"
    by code_simp
  have a8: "exists ?w ''/p/sub/Taskfile.yml'' = Inr ''/p/sub/Taskfile.yml''"
    by code_simp
  have a9: "checkCircularIncludes ?w (Some (subChildNode False False)) = None"
    by code_simp
  have a10: "Taskfile 1 ?w (subChildNode False False)
             = Some (subChildNode False False, Inr (subChildResolved [''.env''], ''/p/sub''))"
    by code_simp
  have a11: "tf_Dotenv (subChildResolved [''.env'']) \<noteq> []"
    by code_simp
  have "Taskfile (Suc 1) ?w rootNode = Some (pNode, Inl ErrIncludedTaskfilesCantHaveDotenvs)"
    using a1 a2 a3 a4 a5 a6 a7 a8 a9 [unfolded subChildNode_def]
      a10 [unfolded subChildNode_def] a11
    by (rule dotenv_in_include_fails)
  then have c: "Taskfile 2 ?w rootNode = Some (pNode, Inl ErrIncludedTaskfilesCantHaveDotenvs)"
    by (simp add: numeral_2_eq_2)
  show ?thesis
    by (intro conjI a1 a2 a3 a4 a6 a7 a8 a9 a10 a11 c)
qed

section \<open>Optional includes\<close>

text \<open>
  Claim C9. A parent of version at least 3.0 reaches an include that is marked
  optional and resolves to a file that passes the cycle guard. If the recursive call
  for the child returns an error, the function given to \<open>Range\<close> returns nil and the
  loop goes on with the remaining includes and the declaration as it was. If the
  recursive call returns a declaration with a dotenv file, the resolution of the
  parent returns \<open>ErrIncludedTaskfilesCantHaveDotenvs\<close> although the include is
  optional.
\<close>

theorem optional_swallows_failure_not_dotenv:
  assumes "resolveNode w readerNode = (node, None)"
    and "loadDeclaration w node = Inr (t, taskFileDir, v)"
    and "ge3 v"
    and "tf_Includes t = pre @ (namespace, includedTask0) # post"
    and "rangeIncludes (includeStep w (Taskfile fuel w) v node) t pre = Some (Inr t1)"
    and "templateInclude w v includedTask0 = Inr includedTask"
    and "inc_Optional includedTask"
    and "FullTaskfilePath w includedTask = Inr p"
    and "exists w p = Inr path"
    and "checkCircularIncludes w
           (Some (ReaderNode (Dir path) (Base path) (inc_Optional includedTask) (Some node)))
         = None"
  shows "(Taskfile fuel w
            (ReaderNode (Dir path) (Base path) (inc_Optional includedTask) (Some node))
          = Some (n, Inl e) \<and> \<not> isPanic e
          \<longrightarrow> includeStep w (Taskfile fuel w) v node t1 (namespace, includedTask0)
                = Some (Inr t1)
              \<and> rangeIncludes (includeStep w (Taskfile fuel w) v node) t (tf_Includes t)
                = rangeIncludes (includeStep w (Taskfile fuel w) v node) t1 post)
       \<and> (Taskfile fuel w
            (ReaderNode (Dir path) (Base path) (inc_Optional includedTask) (Some node))
          = Some (n, Inr (includedTaskfile, d)) \<and> tf_Dotenv includedTaskfile \<noteq> []
          \<longrightarrow> Taskfile (Suc fuel) w readerNode
                = Some (node, Inl ErrIncludedTaskfilesCantHaveDotenvs))"
proof (intro conjI impI)
  assume fails: "Taskfile fuel w
            (ReaderNode (Dir path) (Base path) (inc_Optional includedTask) (Some node))
          = Some (n, Inl e) \<and> \<not> isPanic e"
  then have "resolveChild w (Taskfile fuel w) v node includedTask = Some (Inr None)"
    using assms(7-10) resolveChild_swallows by blast
  then show step: "includeStep w (Taskfile fuel w) v node t1 (namespace, includedTask0)
                = Some (Inr t1)"
    using assms(6) by (simp add: includeStep_def)
  show "rangeIncludes (includeStep w (Taskfile fuel w) v node) t (tf_Includes t)
        = rangeIncludes (includeStep w (Taskfile fuel w) v node) t1 post"
    using rangeIncludes_skips [OF assms(5) step] assms(4) by simp
next
  assume ok: "Taskfile fuel w
            (ReaderNode (Dir path) (Base path) (inc_Optional includedTask) (Some node))
          = Some (n, Inr (includedTaskfile, d)) \<and> tf_Dotenv includedTaskfile \<noteq> []"
  have "resolveChild w (Taskfile fuel w) v node includedTask
        = Some (Inl ErrIncludedTaskfilesCantHaveDotenvs)"
    using assms(8-10) ok assms(3) resolveChild_dotenv by blast
  then have "includeStep w (Taskfile fuel w) v node t1 (namespace, includedTask0)
        = Some (Inl ErrIncludedTaskfilesCantHaveDotenvs)"
    using assms(6) by (simp add: includeStep_def)
  with assms(1,2,4,5) show "Taskfile (Suc fuel) w readerNode
                = Some (node, Inl ErrIncludedTaskfilesCantHaveDotenvs)"
    by (rule Taskfile_include_error)
qed

theorem optional_swallows_failure_not_dotenv_witness:
  "resolveNode brokenEnv rootNode = (pNode, None)
   \<and> loadDeclaration brokenEnv pNode = Inr (subParentLoaded True False, ''/p'', Finite 3)
   \<and> inc_Optional (subIncludeBased True False)
   \<and> exists brokenEnv ''/p/sub/Taskfile.yml'' = Inr ''/p/sub/Taskfile.yml''
   \<and> checkCircularIncludes brokenEnv (Some (subChildNode True False)) = None
   \<and> Taskfile 1 brokenEnv (subChildNode True False)
       = Some (subChildNode True False,
               Inl (ParseError ''/p/sub/Taskfile.yml'' (CollabError ''yaml'')))
   \<and> includeStep brokenEnv (Taskfile 1 brokenEnv) (Finite 3) pNode (subParentLoaded True False)
         (''sub'', subIncludeBased True False)
       = Some (Inr (subParentLoaded True False))
   \<and> rangeIncludes (includeStep brokenEnv (Taskfile 1 brokenEnv) (Finite 3) pNode)
         (subParentLoaded True False) (tf_Includes (subParentLoaded True False))
       = rangeIncludes (includeStep brokenEnv (Taskfile 1 brokenEnv) (Finite 3) pNode)
           (subParentLoaded True False) []
   \<and> loadDeclaration (subEnv True False [''.env'']) pNode
       = Inr (subParentLoaded True False, ''/p'', Finite 3)
   \<and> Taskfile 1 (subEnv True False [''.env'']) (subChildNode True False)
       = Some (subChildNode True False, Inr (subChildResolved [''.env''], ''/p/sub''))
   \<and> tf_Dotenv (subChildResolved [''.env'']) \<noteq> []
   \<and> Taskfile 2 (subEnv True False [''.env'']) rootNode
       = Some (pNode, Inl ErrIncludedTaskfilesCantHaveDotenvs)"
proof -
  let ?b = "brokenEnv"
  let ?w = "subEnv True False [''.env'']"
  have a3: "ge3 (Finite 3)"
    by simp
  have a4: "tf_Includes (subParentLoaded True False)
            = [] @ (''sub'', subIncludeBased True False) # []"
    by code_simp
  have a7: "inc_Optional (subIncludeBased True False)"
    by code_simp
  have b1: "resolveNode ?b rootNode = (pNode, None)"
    by code_simp
  have b2: "loadDeclaration ?b pNode = Inr (subParentLoaded True False, ''/p'', Finite 3)"
    by code_simp
  have b5: "rangeIncludes (includeStep ?b (Taskfile 1 ?b) (Finite 3) pNode)
              (subParentLoaded True False) [] = Some (Inr (subParentLoaded True False))"
    by simp
  have b6: "templateInclude ?b (Finite 3) (subIncludeBased True False)
            = Inr (subIncludeBased True False)"
    by code_simp
  have b8: "FullTaskfilePath ?b (subIncludeBased True False) = Inr ''/p/sub/Taskfile.yml''"
    by code_simp
  have b9: "exists ?b ''/p/sub/Taskfile.yml'' = Inr ''/p/sub/Taskfile.yml''"
    by code_simp
  have b10: "checkCircularIncludes ?b (Some (subChildNode True False)) = None"
    by code_simp
  have brun: "Taskfile 1 ?b (subChildNode True False)
       = Some (subChildNode True False,
               Inl (ParseError ''/p/sub/Taskfile.yml'' (CollabError ''yaml'')))"
    by code_simp
  have bnp: "\<not> isPanic (ParseError ''/p/sub/Taskfile.yml'' (CollabError ''yaml''))"
    by simp
  note bthm = optional_swallows_failure_not_dotenv
    [OF b1 b2 a3 a4 b5 b6 a7 b8 b9 b10 [unfolded subChildNode_def],
     of "subChildNode True False" "ParseError ''/p/sub/Taskfile.yml'' (CollabError ''yaml'')",
     THEN conjunct1, folded subChildNode_def]
  from bthm brun bnp
  have bc: "includeStep ?b (Taskfile 1 ?b) (Finite 3) pNode (subParentLoaded True False)
         (''sub'', subIncludeBased True False)
       = Some (Inr (subParentLoaded True False))
     \<and> rangeIncludes (includeStep ?b (Taskfile 1 ?b) (Finite 3) pNode)
         (subParentLoaded True False) (tf_Includes (subParentLoaded True False))
       = rangeIncludes (includeStep ?b (Taskfile 1 ?b) (Finite 3) pNode)
           (subParentLoaded True False) []"
    by blast
  have w1: "resolveNode ?w rootNode = (pNode, None)"
    by code_simp
  have w2: "loadDeclaration ?w pNode = Inr (subParentLoaded True False, ''/p'', Finite 3)"
    by code_simp
  have w5: "rangeIncludes (includeStep ?w (Taskfile 1 ?w) (Finite 3) pNode)
              (subParentLoaded True False) [] = Some (Inr (subParentLoaded True False))"
    by simp
  have w6: "templateInclude ?w (Finite 3) (subIncludeBased True False)
            = Inr (subIncludeBased True False)"
    by code_simp
  have w8: "FullTaskfilePath ?w (subIncludeBased True False) = Inr ''/p/sub/Taskfile.yml''"
    by code_simp
  have w9: "exists ?w ''/p/sub/Taskfile.yml'' = Inr ''/p/sub/Taskfile.yml''"
    by code_simp
  have w10: "checkCircularIncludes ?w (Some (subChildNode True False)) = None"
    by code_simp
  have wrun: "Taskfile 1 ?w (subChildNode True False)
       = Some (subChildNode True False, Inr (subChildResolved [''.env''], ''/p/sub''))"
    by code_simp
  have wdot: "tf_Dotenv (subChildResolved [''.env'']) \<noteq> []"
    by code_simp
  note wthm = optional_swallows_failure_not_dotenv
    [OF w1 w2 a3 a4 w5 w6 a7 w8 w9 w10 [unfolded subChildNode_def],
     of "subChildNode True False" _ "subChildResolved [''.env'']" "''/p/sub''",
     THEN conjunct2, folded subChildNode_def]
  from wthm wrun wdot
  have "Taskfile (Suc 1) ?w rootNode = Some (pNode, Inl ErrIncludedTaskfilesCantHaveDotenvs)"
    by blast
  then have wc: "Taskfile 2 ?w rootNode = Some (pNode, Inl ErrIncludedTaskfilesCantHaveDotenvs)"
    by (simp add: numeral_2_eq_2)
  show ?thesis
    using b1 b2 a7 b9 b10 brun bc w2 wrun wdot wc by (intro conjI) blast+
qed

section \<open>Advanced imports\<close>







section \<open>The alias of the default task\<close>

lemma lookupTask_setTask_same:
  assumes "lookupTask tasks name = Some old"
  shows "lookupTask (setTask name task tasks) name = Some task"
  using assms
  by (induction tasks) (auto simp: lookupTask_def setTask_def split: option.splits if_splits)

lemma lookupTask_setTask_other:
  assumes "k \<noteq> name"
  shows "lookupTask (setTask name task tasks) k = lookupTask tasks k"
  using assms
  by (induction tasks) (auto simp: lookupTask_def setTask_def split: option.splits)

text \<open>
  Claim C6. The child of an include under \<open>namespace\<close> is resolved and merged, and
  \<open>t'\<close> is the parent that \<open>Merge\<close> returns. If the child has a task under the key
  \<open>default\<close>, the parent \<open>t'\<close> has no task under the key \<open>namespace\<close>, and \<open>task\<close> is
  the task of \<open>t'\<close> under the key \<open>namespace:default\<close>, then the function given to
  \<open>Range\<close> returns a parent where that key holds \<open>task\<close> with the aliases of \<open>task\<close>,
  then the namespace, then the aliases of the include; every other key is as in \<open>t'\<close>.
\<close>

theorem default_task_gets_namespace_alias:
  assumes "templateInclude w v includedTask0 = Inr includedTask"
    and "resolveChild w recur v node includedTask = Some (Inr (Some includedTaskfile))"
    and "advancedImport w includedTask includedTaskfile = Inr child"
    and "Merge w t child (Some includedTask) [namespace] = Inr t'"
    and "lookupTask (tf_Tasks child) ''default'' \<noteq> None"
    and "lookupTask (tf_Tasks t') namespace = None"
    and "lookupTask (tf_Tasks t') (namespace @ '':default'') = Some task"
  shows "\<exists>t''. includeStep w recur v node t (namespace, includedTask0) = Some (Inr t'')
         \<and> lookupTask (tf_Tasks t'') (namespace @ '':default'')
             = Some (task\<lparr>t_Aliases :=
                       t_Aliases task @ [namespace] @ inc_Aliases includedTask\<rparr>)
         \<and> (\<forall>k. k \<noteq> namespace @ '':default''
               \<longrightarrow> lookupTask (tf_Tasks t'') k = lookupTask (tf_Tasks t') k)"
proof -
  let ?task = "task\<lparr>t_Aliases := t_Aliases task @ [namespace] @ inc_Aliases includedTask\<rparr>"
  let ?t = "t'\<lparr>tf_Tasks := setTask (namespace @ '':default'') ?task (tf_Tasks t')\<rparr>"
  have "mergeInclude w namespace includedTask t child = Inr ?t"
    using assms(4-7) by (simp add: mergeInclude_def)
  then have "includeStep w recur v node t (namespace, includedTask0) = Some (Inr ?t)"
    using assms(1-3) by (simp add: includeStep_def)
  moreover have "lookupTask (tf_Tasks ?t) (namespace @ '':default'') = Some ?task"
    using lookupTask_setTask_same [OF assms(7)] by simp
  moreover have "\<forall>k. k \<noteq> namespace @ '':default''
               \<longrightarrow> lookupTask (tf_Tasks ?t) k = lookupTask (tf_Tasks t') k"
    by (simp add: lookupTask_setTask_other)
  ultimately show ?thesis
    by blast
qed

theorem default_task_gets_namespace_alias_witness:
  "templateInclude (subEnv False False []) (Finite 3) (subIncludeBased False False)
     = Inr (subIncludeBased False False)
   \<and> resolveChild (subEnv False False []) (Taskfile 1 (subEnv False False [])) (Finite 3) pNode
         (subIncludeBased False False)
       = Some (Inr (Some (subChildResolved [])))
   \<and> advancedImport (subEnv False False []) (subIncludeBased False False) (subChildResolved [])
       = Inr (subChildResolved [])
   \<and> Merge (subEnv False False []) (subParentLoaded False False) (subChildResolved [])
         (Some (subIncludeBased False False)) [''sub'']
       = Inr subMerged
   \<and> lookupTask (tf_Tasks (subChildResolved [])) ''default'' \<noteq> None
   \<and> lookupTask (tf_Tasks subMerged) ''sub'' = None
   \<and> lookupTask (tf_Tasks subMerged) (''sub'' @ '':default'')
       = Some (srcTask ''default'' ''out'' ''/p/sub/Taskfile.yml'' [])
   \<and> (\<exists>t''. includeStep (subEnv False False []) (Taskfile 1 (subEnv False False [])) (Finite 3)
               pNode (subParentLoaded False False) (''sub'', subIncludeBased False False)
             = Some (Inr t'')
           \<and> lookupTask (tf_Tasks t'') (''sub'' @ '':default'')
             = Some (srcTask ''default'' ''out'' ''/p/sub/Taskfile.yml'' [''sub'', ''s'']))"
proof -
  let ?w = "subEnv False False []"
  have a1: "templateInclude ?w (Finite 3) (subIncludeBased False False)
            = Inr (subIncludeBased False False)"
    by code_simp
  have a2: "resolveChild ?w (Taskfile 1 ?w) (Finite 3) pNode (subIncludeBased False False)
            = Some (Inr (Some (subChildResolved [])))"
    by code_simp
  have a3: "advancedImport ?w (subIncludeBased False False) (subChildResolved [])
            = Inr (subChildResolved [])"
    by code_simp
  have a4: "Merge ?w (subParentLoaded False False) (subChildResolved [])
              (Some (subIncludeBased False False)) [''sub'']
            = Inr subMerged"
    by code_simp
  have a5: "lookupTask (tf_Tasks (subChildResolved [])) ''default'' \<noteq> None"
    by code_simp
  have a6: "lookupTask (tf_Tasks subMerged) ''sub'' = None"
    by code_simp
  have a7: "lookupTask (tf_Tasks subMerged) (''sub'' @ '':default'')
            = Some (srcTask ''default'' ''out'' ''/p/sub/Taskfile.yml'' [])"
    by code_simp
  have al: "(srcTask ''default'' ''out'' ''/p/sub/Taskfile.yml'' [])
              \<lparr>t_Aliases := t_Aliases (srcTask ''default'' ''out'' ''/p/sub/Taskfile.yml'' [])
                 @ [''sub''] @ inc_Aliases (subIncludeBased False False)\<rparr>
            = srcTask ''default'' ''out'' ''/p/sub/Taskfile.yml'' [''sub'', ''s'']"
    by code_simp
  from default_task_gets_namespace_alias [OF a1 a2 a3 a4 a5 a6 a7]
  have "\<exists>t''. includeStep ?w (Taskfile 1 ?w) (Finite 3)
               pNode (subParentLoaded False False) (''sub'', subIncludeBased False False)
             = Some (Inr t'')
           \<and> lookupTask (tf_Tasks t'') (''sub'' @ '':default'')
             = Some (srcTask ''default'' ''out'' ''/p/sub/Taskfile.yml'' [''sub'', ''s''])"
    unfolding al by blast
  then show ?thesis
    using a1 a2 a3 a4 a5 a6 a7 by blast
qed

section \<open>Include cycles\<close>

lemma Clean_nonempty: "Clean path \<noteq> []"
  by (simp add: Clean_def Let_def)

lemma Dir_nonempty: "Dir path \<noteq> []"
  by (simp add: Dir_def Clean_nonempty)

lemma Base_nonempty: "Base path \<noteq> []"
  by (simp add: Base_def Let_def)

lemma resolveNode_child:
  "resolveNode w (ReaderNode (Dir path) (Base path) opt parent)
   = (ReaderNode (Dir path) (Base path) opt parent, None)"
  by (simp add: resolveNode_def Dir_nonempty Base_nonempty)

lemma climb_two_levels:
  assumes "SmartJoin w (rn_Dir grandparent) (rn_Entrypoint grandparent) = basePath"
  shows "climb w basePath parentPath (Some (ReaderNode d e opt (Some grandparent)))
         = Some (CycleError basePath parentPath)"
  using assms by (cases grandparent) (simp add: Let_def)

lemma cycle_guard_fires:
  assumes "SmartJoin w (Dir path) (Base path)
           = SmartJoin w (rn_Dir grandparent) (rn_Entrypoint grandparent)"
  shows "checkCircularIncludes w
           (Some (ReaderNode (Dir path) (Base path) opt
                    (Some (ReaderNode d e opt' (Some grandparent)))))
         = Some (CycleError (SmartJoin w (Dir path) (Base path)) (SmartJoin w d e))"
  using climb_two_levels [OF assms [symmetric]]
  by (simp add: checkCircularIncludes_def)

lemma resolveChild_cycle:
  assumes "FullTaskfilePath w includedTask = Inr p" and "exists w p = Inr path"
    and "checkCircularIncludes w
           (Some (ReaderNode (Dir path) (Base path) (inc_Optional includedTask) (Some node)))
         = Some e"
  shows "resolveChild w recur v node includedTask = Some (Inl e)"
  using assms by (simp add: resolveChild_def)

lemma resolveChild_propagates:
  assumes "FullTaskfilePath w includedTask = Inr p" and "exists w p = Inr path"
    and "checkCircularIncludes w
           (Some (ReaderNode (Dir path) (Base path) (inc_Optional includedTask) (Some node)))
         = None"
    and "recur (ReaderNode (Dir path) (Base path) (inc_Optional includedTask) (Some node))
         = Some (n, Inl e)"
    and "\<not> inc_Optional includedTask"
  shows "resolveChild w recur v node includedTask = Some (Inl e)"
  using assms by (simp add: resolveChild_def)

text \<open>
  Claim C1, as amended. \<open>A\<close> is loaded at \<open>nodeA\<close> and reaches an include that
  resolves to the file of \<open>B\<close>; \<open>B\<close> is loaded at \<open>nodeB\<close>, the child node of that
  include, and reaches an include that resolves to a file whose joined directory and
  entrypoint are those of \<open>nodeA\<close>. Then, whatever the optional flag of the include of
  \<open>A\<close> in \<open>B\<close>:
  \<^item> the resolution of \<open>B\<close> returns the cycle error, naming the file of \<open>A\<close> and the
    file of \<open>B\<close>;
  \<^item> where the include of \<open>B\<close> in \<open>A\<close> is not optional, the resolution of \<open>A\<close> returns
    that cycle error;
  \<^item> where the include of \<open>B\<close> in \<open>A\<close> is optional, the function given to \<open>Range\<close>
    returns nil for it and leaves the declaration of \<open>A\<close> as it was: the cycle error
    of the recursive call is swallowed with every other error of that call.
\<close>

theorem include_cycle_error:
  assumes "resolveNode w readerNode = (nodeA, None)"
    and "loadDeclaration w nodeA = Inr (tA, dirA, vA)"
    and "tf_Includes tA = preA @ (nsB, incB0) # postA"
    and "rangeIncludes (includeStep w (Taskfile (Suc fuel) w) vA nodeA) tA preA
         = Some (Inr tA1)"
    and "templateInclude w vA incB0 = Inr incB"
    and "FullTaskfilePath w incB = Inr pB"
    and "exists w pB = Inr pathB"
    and "nodeB = ReaderNode (Dir pathB) (Base pathB) (inc_Optional incB) (Some nodeA)"
    and "checkCircularIncludes w (Some nodeB) = None"
    and "loadDeclaration w nodeB = Inr (tB, dirB, vB)"
    and "tf_Includes tB = preB @ (nsA, incA0) # postB"
    and "rangeIncludes (includeStep w (Taskfile fuel w) vB nodeB) tB preB = Some (Inr tB1)"
    and "templateInclude w vB incA0 = Inr incA"
    and "FullTaskfilePath w incA = Inr pA"
    and "exists w pA = Inr pathA"
    and "SmartJoin w (Dir pathA) (Base pathA)
         = SmartJoin w (rn_Dir nodeA) (rn_Entrypoint nodeA)"
  shows "Taskfile (Suc fuel) w nodeB
           = Some (nodeB, Inl (CycleError (SmartJoin w (Dir pathA) (Base pathA))
                                 (SmartJoin w (Dir pathB) (Base pathB))))
       \<and> (\<not> inc_Optional incB \<longrightarrow>
            Taskfile (Suc (Suc fuel)) w readerNode
              = Some (nodeA, Inl (CycleError (SmartJoin w (Dir pathA) (Base pathA))
                                    (SmartJoin w (Dir pathB) (Base pathB)))))
       \<and> (inc_Optional incB \<longrightarrow>
            includeStep w (Taskfile (Suc fuel) w) vA nodeA tA1 (nsB, incB0) = Some (Inr tA1))"
proof -
  let ?err = "CycleError (SmartJoin w (Dir pathA) (Base pathA))
                (SmartJoin w (Dir pathB) (Base pathB))"
  have guard: "checkCircularIncludes w
           (Some (ReaderNode (Dir pathA) (Base pathA) (inc_Optional incA) (Some nodeB)))
         = Some ?err"
    unfolding assms(8) using assms(16) by (rule cycle_guard_fires)
  have "resolveChild w (Taskfile fuel w) vB nodeB incA = Some (Inl ?err)"
    using assms(14,15) guard by (rule resolveChild_cycle)
  then have stepB: "includeStep w (Taskfile fuel w) vB nodeB tB1 (nsA, incA0) = Some (Inl ?err)"
    using assms(13) by (simp add: includeStep_def)
  have nodeB: "resolveNode w nodeB = (nodeB, None)"
    unfolding assms(8) by (rule resolveNode_child)
  have runB: "Taskfile (Suc fuel) w nodeB = Some (nodeB, Inl ?err)"
    using nodeB assms(10,11,12) stepB by (rule Taskfile_include_error)
  have runB': "Taskfile (Suc fuel) w
         (ReaderNode (Dir pathB) (Base pathB) (inc_Optional incB) (Some nodeA))
       = Some (nodeB, Inl ?err)"
    using runB unfolding assms(8) .
  have guardA: "checkCircularIncludes w
         (Some (ReaderNode (Dir pathB) (Base pathB) (inc_Optional incB) (Some nodeA))) = None"
    using assms(9) unfolding assms(8) .
  have strict: "Taskfile (Suc (Suc fuel)) w readerNode = Some (nodeA, Inl ?err)"
    if "\<not> inc_Optional incB"
  proof -
    have "resolveChild w (Taskfile (Suc fuel) w) vA nodeA incB = Some (Inl ?err)"
      using assms(6,7) guardA runB' that by (rule resolveChild_propagates)
    then have "includeStep w (Taskfile (Suc fuel) w) vA nodeA tA1 (nsB, incB0)
               = Some (Inl ?err)"
      using assms(5) by (simp add: includeStep_def)
    with assms(1,2,3,4) show ?thesis
      by (rule Taskfile_include_error)
  qed
  have lenient: "includeStep w (Taskfile (Suc fuel) w) vA nodeA tA1 (nsB, incB0)
                 = Some (Inr tA1)"
    if "inc_Optional incB"
  proof -
    have "\<not> isPanic ?err"
      by simp
    with assms(6,7) guardA runB' that
    have "resolveChild w (Taskfile (Suc fuel) w) vA nodeA incB = Some (Inr None)"
      by (rule resolveChild_swallows)
    then show ?thesis
      using assms(5) by (simp add: includeStep_def)
  qed
  show ?thesis
    using runB strict lenient by blast
qed

theorem include_cycle_error_witness:
  "resolveNode (cycleEnv False True) rootNode = (pNode, None)
   \<and> loadDeclaration (cycleEnv False True) pNode = Inr (cycleParentLoaded False, ''/p'', Finite 3)
   \<and> tf_Includes (cycleParentLoaded False) = [] @ (''sub'', cycleDown False) # []
   \<and> templateInclude (cycleEnv False True) (Finite 3) (cycleDown False) = Inr (cycleDown False)
   \<and> FullTaskfilePath (cycleEnv False True) (cycleDown False) = Inr ''/p/sub/Taskfile.yml''
   \<and> exists (cycleEnv False True) ''/p/sub/Taskfile.yml'' = Inr ''/p/sub/Taskfile.yml''
   \<and> cycleChildNode False = ReaderNode (Dir ''/p/sub/Taskfile.yml'') (Base ''/p/sub/Taskfile.yml'')
       (inc_Optional (cycleDown False)) (Some pNode)
   \<and> checkCircularIncludes (cycleEnv False True) (Some (cycleChildNode False)) = None
   \<and> loadDeclaration (cycleEnv False True) (cycleChildNode False)
       = Inr (cycleChildLoaded True, ''/p/sub'', Finite 3)
   \<and> tf_Includes (cycleChildLoaded True) = [] @ (''up'', cycleUp True) # []
   \<and> templateInclude (cycleEnv False True) (Finite 3) (cycleUp True) = Inr (cycleUp True)
   \<and> FullTaskfilePath (cycleEnv False True) (cycleUp True) = Inr ''/p/Taskfile.yml''
   \<and> exists (cycleEnv False True) ''/p/Taskfile.yml'' = Inr ''/p/Taskfile.yml''
   \<and> SmartJoin (cycleEnv False True) (Dir ''/p/Taskfile.yml'') (Base ''/p/Taskfile.yml'')
       = SmartJoin (cycleEnv False True) (rn_Dir pNode) (rn_Entrypoint pNode)
   \<and> Taskfile 2 (cycleEnv False True) (cycleChildNode False)
       = Some (cycleChildNode False,
               Inl (CycleError ''/p/Taskfile.yml'' ''/p/sub/Taskfile.yml''))
   \<and> Taskfile 3 (cycleEnv False True) rootNode
       = Some (pNode, Inl (CycleError ''/p/Taskfile.yml'' ''/p/sub/Taskfile.yml''))
   \<and> resolveNode (cycleEnv True False) rootNode = (pNode, None)
   \<and> loadDeclaration (cycleEnv True False) pNode = Inr (cycleParentLoaded True, ''/p'', Finite 3)
   \<and> tf_Includes (cycleParentLoaded True) = [] @ (''sub'', cycleDown True) # []
   \<and> templateInclude (cycleEnv True False) (Finite 3) (cycleDown True) = Inr (cycleDown True)
   \<and> FullTaskfilePath (cycleEnv True False) (cycleDown True) = Inr ''/p/sub/Taskfile.yml''
   \<and> exists (cycleEnv True False) ''/p/sub/Taskfile.yml'' = Inr ''/p/sub/Taskfile.yml''
   \<and> cycleChildNode True = ReaderNode (Dir ''/p/sub/Taskfile.yml'') (Base ''/p/sub/Taskfile.yml'')
       (inc_Optional (cycleDown True)) (Some pNode)
   \<and> checkCircularIncludes (cycleEnv True False) (Some (cycleChildNode True)) = None
   \<and> loadDeclaration (cycleEnv True False) (cycleChildNode True)
       = Inr (cycleChildLoaded False, ''/p/sub'', Finite 3)
   \<and> tf_Includes (cycleChildLoaded False) = [] @ (''up'', cycleUp False) # []
   \<and> templateInclude (cycleEnv True False) (Finite 3) (cycleUp False) = Inr (cycleUp False)
   \<and> FullTaskfilePath (cycleEnv True False) (cycleUp False) = Inr ''/p/Taskfile.yml''
   \<and> exists (cycleEnv True False) ''/p/Taskfile.yml'' = Inr ''/p/Taskfile.yml''
   \<and> SmartJoin (cycleEnv True False) (Dir ''/p/Taskfile.yml'') (Base ''/p/Taskfile.yml'')
       = SmartJoin (cycleEnv True False) (rn_Dir pNode) (rn_Entrypoint pNode)
   \<and> Taskfile 2 (cycleEnv True False) (cycleChildNode True)
       = Some (cycleChildNode True,
               Inl (CycleError ''/p/Taskfile.yml'' ''/p/sub/Taskfile.yml''))
   \<and> includeStep (cycleEnv True False) (Taskfile 2 (cycleEnv True False)) (Finite 3) pNode (cycleParentLoaded True)
         (''sub'', cycleDown True)
       = Some (Inr (cycleParentLoaded True))"
proof -
  have two: "Suc 1 = 2"
    by simp
  have three: "Suc 2 = 3"
    by simp
  have sa1: "resolveNode (cycleEnv False True) rootNode = (pNode, None)"
    by code_simp
  have sa2: "loadDeclaration (cycleEnv False True) pNode = Inr (cycleParentLoaded False, ''/p'', Finite 3)"
    by code_simp
  have sa3: "tf_Includes (cycleParentLoaded False) = [] @ (''sub'', cycleDown False) # []"
    by code_simp
  have sa4: "rangeIncludes (includeStep (cycleEnv False True) (Taskfile (Suc 1) (cycleEnv False True)) (Finite 3) pNode)
       (cycleParentLoaded False) [] = Some (Inr (cycleParentLoaded False))"
    by simp
  have sa5: "templateInclude (cycleEnv False True) (Finite 3) (cycleDown False) = Inr (cycleDown False)"
    by code_simp
  have sa6: "FullTaskfilePath (cycleEnv False True) (cycleDown False) = Inr ''/p/sub/Taskfile.yml''"
    by code_simp
  have sa7: "exists (cycleEnv False True) ''/p/sub/Taskfile.yml'' = Inr ''/p/sub/Taskfile.yml''"
    by code_simp
  have sa8: "cycleChildNode False = ReaderNode (Dir ''/p/sub/Taskfile.yml'') (Base ''/p/sub/Taskfile.yml'')
       (inc_Optional (cycleDown False)) (Some pNode)"
    by code_simp
  have sa9: "checkCircularIncludes (cycleEnv False True) (Some (cycleChildNode False)) = None"
    by code_simp
  have sa10: "loadDeclaration (cycleEnv False True) (cycleChildNode False)
       = Inr (cycleChildLoaded True, ''/p/sub'', Finite 3)"
    by code_simp
  have sa11: "tf_Includes (cycleChildLoaded True) = [] @ (''up'', cycleUp True) # []"
    by code_simp
  have sa12: "rangeIncludes (includeStep (cycleEnv False True) (Taskfile 1 (cycleEnv False True)) (Finite 3) (cycleChildNode False))
       (cycleChildLoaded True) [] = Some (Inr (cycleChildLoaded True))"
    by simp
  have sa13: "templateInclude (cycleEnv False True) (Finite 3) (cycleUp True) = Inr (cycleUp True)"
    by code_simp
  have sa14: "FullTaskfilePath (cycleEnv False True) (cycleUp True) = Inr ''/p/Taskfile.yml''"
    by code_simp
  have sa15: "exists (cycleEnv False True) ''/p/Taskfile.yml'' = Inr ''/p/Taskfile.yml''"
    by code_simp
  have sa16: "SmartJoin (cycleEnv False True) (Dir ''/p/Taskfile.yml'') (Base ''/p/Taskfile.yml'')
       = SmartJoin (cycleEnv False True) (rn_Dir pNode) (rn_Entrypoint pNode)"
    by code_simp
  have sj1: "SmartJoin (cycleEnv False True) (Dir ''/p/Taskfile.yml'') (Base ''/p/Taskfile.yml'')
       = ''/p/Taskfile.yml''"
    by code_simp
  have sj2: "SmartJoin (cycleEnv False True) (Dir ''/p/sub/Taskfile.yml'') (Base ''/p/sub/Taskfile.yml'')
       = ''/p/sub/Taskfile.yml''"
    by code_simp
  have sopt: "inc_Optional (cycleDown False) = False"
    by code_simp
  note sthm = include_cycle_error
    [OF sa1 sa2 sa3 sa4 sa5 sa6 sa7 sa8 sa9 sa10 sa11 sa12 sa13 sa14 sa15 sa16,
     unfolded sj1 sj2 sopt two three]
  have sc1: "Taskfile 2 (cycleEnv False True) (cycleChildNode False)
       = Some (cycleChildNode False,
               Inl (CycleError ''/p/Taskfile.yml'' ''/p/sub/Taskfile.yml''))"
    using sthm by simp
  have sc2: "Taskfile 3 (cycleEnv False True) rootNode
       = Some (pNode, Inl (CycleError ''/p/Taskfile.yml'' ''/p/sub/Taskfile.yml''))"
    using sthm by simp
  have oa1: "resolveNode (cycleEnv True False) rootNode = (pNode, None)"
    by code_simp
  have oa2: "loadDeclaration (cycleEnv True False) pNode = Inr (cycleParentLoaded True, ''/p'', Finite 3)"
    by code_simp
  have oa3: "tf_Includes (cycleParentLoaded True) = [] @ (''sub'', cycleDown True) # []"
    by code_simp
  have oa4: "rangeIncludes (includeStep (cycleEnv True False) (Taskfile (Suc 1) (cycleEnv True False)) (Finite 3) pNode)
       (cycleParentLoaded True) [] = Some (Inr (cycleParentLoaded True))"
    by simp
  have oa5: "templateInclude (cycleEnv True False) (Finite 3) (cycleDown True) = Inr (cycleDown True)"
    by code_simp
  have oa6: "FullTaskfilePath (cycleEnv True False) (cycleDown True) = Inr ''/p/sub/Taskfile.yml''"
    by code_simp
  have oa7: "exists (cycleEnv True False) ''/p/sub/Taskfile.yml'' = Inr ''/p/sub/Taskfile.yml''"
    by code_simp
  have oa8: "cycleChildNode True = ReaderNode (Dir ''/p/sub/Taskfile.yml'') (Base ''/p/sub/Taskfile.yml'')
       (inc_Optional (cycleDown True)) (Some pNode)"
    by code_simp
  have oa9: "checkCircularIncludes (cycleEnv True False) (Some (cycleChildNode True)) = None"
    by code_simp
  have oa10: "loadDeclaration (cycleEnv True False) (cycleChildNode True)
       = Inr (cycleChildLoaded False, ''/p/sub'', Finite 3)"
    by code_simp
  have oa11: "tf_Includes (cycleChildLoaded False) = [] @ (''up'', cycleUp False) # []"
    by code_simp
  have oa12: "rangeIncludes (includeStep (cycleEnv True False) (Taskfile 1 (cycleEnv True False)) (Finite 3) (cycleChildNode True))
       (cycleChildLoaded False) [] = Some (Inr (cycleChildLoaded False))"
    by simp
  have oa13: "templateInclude (cycleEnv True False) (Finite 3) (cycleUp False) = Inr (cycleUp False)"
    by code_simp
  have oa14: "FullTaskfilePath (cycleEnv True False) (cycleUp False) = Inr ''/p/Taskfile.yml''"
    by code_simp
  have oa15: "exists (cycleEnv True False) ''/p/Taskfile.yml'' = Inr ''/p/Taskfile.yml''"
    by code_simp
  have oa16: "SmartJoin (cycleEnv True False) (Dir ''/p/Taskfile.yml'') (Base ''/p/Taskfile.yml'')
       = SmartJoin (cycleEnv True False) (rn_Dir pNode) (rn_Entrypoint pNode)"
    by code_simp
  have oj1: "SmartJoin (cycleEnv True False) (Dir ''/p/Taskfile.yml'') (Base ''/p/Taskfile.yml'')
       = ''/p/Taskfile.yml''"
    by code_simp
  have oj2: "SmartJoin (cycleEnv True False) (Dir ''/p/sub/Taskfile.yml'') (Base ''/p/sub/Taskfile.yml'')
       = ''/p/sub/Taskfile.yml''"
    by code_simp
  have oopt: "inc_Optional (cycleDown True) = True"
    by code_simp
  note othm = include_cycle_error
    [OF oa1 oa2 oa3 oa4 oa5 oa6 oa7 oa8 oa9 oa10 oa11 oa12 oa13 oa14 oa15 oa16,
     unfolded oj1 oj2 oopt two three]
  have oc1: "Taskfile 2 (cycleEnv True False) (cycleChildNode True)
       = Some (cycleChildNode True,
               Inl (CycleError ''/p/Taskfile.yml'' ''/p/sub/Taskfile.yml''))"
    using othm by simp
  have oc3: "includeStep (cycleEnv True False) (Taskfile 2 (cycleEnv True False)) (Finite 3) pNode (cycleParentLoaded True)
         (''sub'', cycleDown True)
       = Some (Inr (cycleParentLoaded True))"
    using othm by simp
  show ?thesis
    by (intro conjI sa1 sa2 sa3 sa5 sa6 sa7 sa8 sa9 sa10 sa11 sa13 sa14 sa15 sa16 sc1 sc2 oa1 oa2 oa3 oa5 oa6 oa7 oa8 oa9 oa10 oa11 oa13 oa14 oa15 oa16 oc1 oc3)
qed

text \<open>
  The claim as stated fails where the include of \<open>B\<close> in \<open>A\<close> is optional: \<open>A\<close>
  includes \<open>B\<close>, \<open>B\<close> includes \<open>A\<close>, and the resolution of \<open>A\<close> returns the declaration
  of \<open>A\<close> without the tasks of \<open>B\<close>, and no error.
\<close>

theorem include_cycle_swallowed_counterexample:
  "Taskfile 3 (cycleEnv True False) rootNode
     = Some (pNode, Inr (cycleParentResolved True, ''/p''))"
  by code_simp

section \<open>Task directories\<close>


















end
